theory Spec2Isabelle
  imports Complex_Main "HOL-Library.AList"
begin

section \<open>JavaScript values, objects and the heap\<close>

text \<open>
  The two modules (\<^verbatim>\<open>movie-manipulation.js\<close> and \<^verbatim>\<open>movie-validation.js\<close>) are ES
  modules (they use \<^verbatim>\<open>export\<close>), so their code runs in strict mode. They work on
  untyped JavaScript values, mutate the objects they are given in place and write
  diagnostics to the console. The model therefore has

  \<^item> a type of values: the primitives and references to heap objects;
  \<^item> a heap from addresses to objects, so that aliasing is visible: a function that
    returns its argument returns the same reference;
  \<^item> a console, the list of messages written so far;
  \<^item> completions: a call either returns a value or throws.

  A number is an IEEE double. The code never computes with numbers, it only compares them,
  so a finite double is represented by the rational it denotes; negative zero, NaN and the
  two infinities are values of their own.

  Scope of the model: the values are those of JSON data (primitives, plain objects with
  any string keys, dense arrays), together with \<^verbatim>\<open>undefined\<close>, the special numbers, and
  what the two modules make of such values. Properties are writable, enumerable,
  configurable data properties, objects are extensible, and the built-in prototypes are
  unmodified. There are no function values, symbols or bigints, so no object of the model
  has a callable property of its own. Property names are strings.
\<close>

datatype jsnum = Fin rat | NegZero | NaN | PosInf | NegInf

type_synonym addr = nat

datatype val = Undefined | Null | JBool bool | JNum jsnum | JStr string | JRef addr

text \<open>
  A plain object is its list of own properties in the order \<^verbatim>\<open>Object.keys\<close> reports
  them. An array is its elements. An array is an object too, and the modules write to
  whatever object they are given: \<^verbatim>\<open>setMovieRating\<close> and \<^verbatim>\<open>addMovieGenre\<close> give an array
  that is passed as \<^verbatim>\<open>movie\<close> the property \<^verbatim>\<open>rating\<close> or \<^verbatim>\<open>genre\<close>. These two are the
  only named properties an array of the model can have, listed after its elements in the
  order they were added.
\<close>

datatype array_prop = Rating | Genre

datatype obj = Obj "(string \<times> val) list" | Arr "val list" "(array_prop \<times> val) list"

datatype console_entry = ConsoleLog string | ConsoleError string

text \<open>
  The state: the heap, the next unused address (the addresses below it are in use, and a
  new object gets this one), and the console.
\<close>

record state =
  heap :: "addr \<Rightarrow> obj"
  next_addr :: addr
  console :: "console_entry list"

datatype error = TypeError

datatype completion = Return val | Throw error

subsection \<open>Numbers\<close>

text \<open>
  The position of a number in the order of the doubles: \<open>None\<close> for NaN, which compares
  false with everything; negative zero has the position of zero.
\<close>

fun num_pos :: "jsnum \<Rightarrow> (int \<times> rat) option" where
  "num_pos (Fin q) = Some (0, q)"
| "num_pos NegZero = Some (0, 0)"
| "num_pos NaN = None"
| "num_pos PosInf = Some (1, 0)"
| "num_pos NegInf = Some (- 1, 0)"

definition num_lt :: "jsnum \<Rightarrow> jsnum \<Rightarrow> bool" where
  "num_lt a b =
     (case (num_pos a, num_pos b) of
        (Some (i, x), Some (j, y)) \<Rightarrow> i < j \<or> (i = j \<and> x < y)
      | _ \<Rightarrow> False)"

definition num_eq :: "jsnum \<Rightarrow> jsnum \<Rightarrow> bool" where
  "num_eq a b =
     (case (num_pos a, num_pos b) of
        (Some (i, x), Some (j, y)) \<Rightarrow> i = j \<and> x = y
      | _ \<Rightarrow> False)"

definition num_le :: "jsnum \<Rightarrow> jsnum \<Rightarrow> bool" where
  "num_le a b = (num_lt a b \<or> num_eq a b)"

subsection \<open>Operators on values\<close>

fun typeof :: "val \<Rightarrow> string" where
  "typeof Undefined = ''undefined''"
| "typeof Null = ''object''"
| "typeof (JBool b) = ''boolean''"
| "typeof (JNum n) = ''number''"
| "typeof (JStr s) = ''string''"
| "typeof (JRef a) = ''object''"

text \<open>\<^verbatim>\<open>ToBoolean\<close>, which \<^verbatim>\<open>if (movie && ...)\<close> applies to \<^verbatim>\<open>movie\<close>.\<close>

fun truthy :: "val \<Rightarrow> bool" where
  "truthy Undefined = False"
| "truthy Null = False"
| "truthy (JBool b) = b"
| "truthy (JNum n) = (\<not> num_eq n (Fin 0) \<and> n \<noteq> NaN)"
| "truthy (JStr s) = (s \<noteq> [])"
| "truthy (JRef a) = True"

text \<open>The operator \<^verbatim>\<open>===\<close>.\<close>

fun strict_eq :: "val \<Rightarrow> val \<Rightarrow> bool" where
  "strict_eq (JNum a) (JNum b) = num_eq a b"
| "strict_eq a b = (a = b)"

text \<open>
  \<^verbatim>\<open>SameValueZero\<close>, the comparison of \<^verbatim>\<open>Array.prototype.includes\<close>: as \<^verbatim>\<open>===\<close>,
  but NaN is equal to itself.
\<close>

fun same_value_zero :: "val \<Rightarrow> val \<Rightarrow> bool" where
  "same_value_zero (JNum a) (JNum b) = (num_eq a b \<or> (a = NaN \<and> b = NaN))"
| "same_value_zero a b = (a = b)"

text \<open>
  \<^verbatim>\<open>>=\<close>, \<^verbatim>\<open><=\<close> and \<^verbatim>\<open><\<close>. The source applies them only to values whose
  \<^verbatim>\<open>typeof\<close> is \<^verbatim>\<open>'number'\<close>; the conversions of other operands are not modelled.
\<close>

fun js_le :: "val \<Rightarrow> val \<Rightarrow> bool" where
  "js_le (JNum a) (JNum b) = num_le a b"
| "js_le a b = False"

fun js_ge :: "val \<Rightarrow> val \<Rightarrow> bool" where
  "js_ge a b = js_le b a"

fun js_lt :: "val \<Rightarrow> val \<Rightarrow> bool" where
  "js_lt (JNum a) (JNum b) = num_lt a b"
| "js_lt a b = False"

abbreviation num :: "rat \<Rightarrow> val" where
  "num q \<equiv> JNum (Fin q)"

subsection \<open>Own properties\<close>

text \<open>The name of an array index: its decimal numeral.\<close>

definition digit_char :: "nat \<Rightarrow> char" where
  "digit_char d = ''0123456789'' ! d"

fun index_key :: "nat \<Rightarrow> string" where
  "index_key n =
     (if n < 10 then [digit_char n] else index_key (n div 10) @ [digit_char (n mod 10)])"

declare index_key.simps [simp del]

text \<open>The index that a property name denotes in a sequence of \<open>n\<close> elements, if any.\<close>

definition array_index :: "nat \<Rightarrow> string \<Rightarrow> nat option" where
  "array_index n k = find (\<lambda>i. index_key i = k) [0..<n]"

text \<open>
  The own properties of a sequence: its elements under their indices, and its length.
  \<open>named\<close> looks up the remaining properties.
\<close>

definition seq_property ::
  "'a list \<Rightarrow> ('a \<Rightarrow> val) \<Rightarrow> (string \<Rightarrow> val option) \<Rightarrow> string \<Rightarrow> val option" where
  "seq_property xs elem named k =
     (case array_index (length xs) k of
        Some i \<Rightarrow> Some (elem (xs ! i))
      | None \<Rightarrow> if k = ''length'' then Some (num (of_nat (length xs))) else named k)"

fun prop_name :: "array_prop \<Rightarrow> string" where
  "prop_name Rating = ''rating''"
| "prop_name Genre = ''genre''"

definition array_prop_of :: "string \<Rightarrow> array_prop option" where
  "array_prop_of k =
     (if k = ''rating'' then Some Rating else if k = ''genre'' then Some Genre else None)"

definition named_property :: "(array_prop \<times> val) list \<Rightarrow> string \<Rightarrow> val option" where
  "named_property ps k = (case array_prop_of k of Some p \<Rightarrow> map_of ps p | None \<Rightarrow> None)"

fun own_property :: "obj \<Rightarrow> string \<Rightarrow> val option" where
  "own_property (Obj ps) k = map_of ps k"
| "own_property (Arr xs ps) k = seq_property xs (\<lambda>x. x) (named_property ps) k"

text \<open>
  The own property of any value, as \<^verbatim>\<open>hasOwnProperty\<close> sees it after \<^verbatim>\<open>ToObject\<close>: a
  string has its characters and its length, the other primitives have none.
\<close>

fun own_prop :: "state \<Rightarrow> val \<Rightarrow> string \<Rightarrow> val option" where
  "own_prop s (JRef a) k = own_property (heap s a) k"
| "own_prop s (JStr str) k = seq_property str (\<lambda>c. JStr [c]) (\<lambda>k. None) k"
| "own_prop s v k = None"

text \<open>The own enumerable property names, in the order of \<^verbatim>\<open>Object.keys\<close>.\<close>

fun own_keys :: "obj \<Rightarrow> string list" where
  "own_keys (Obj ps) = map fst ps"
| "own_keys (Arr xs ps) = map index_key [0..<length xs] @ map prop_name (map fst ps)"

text \<open>
  Writing and deleting a named property of an object: the source writes \<^verbatim>\<open>rating\<close> and
  \<^verbatim>\<open>genre\<close> and deletes \<^verbatim>\<open>director\<close>. A new property goes to the end of the list, an
  existing one keeps its place. An array has no property to delete under a name other than
  \<^verbatim>\<open>rating\<close> and \<^verbatim>\<open>genre\<close>; writing under another name is not modelled (the array stays
  as it is), and the source does not do it.
\<close>

fun set_named :: "string \<Rightarrow> val \<Rightarrow> obj \<Rightarrow> obj" where
  "set_named k v (Obj ps) = Obj (AList.update k v ps)"
| "set_named k v (Arr xs ps) =
     (case array_prop_of k of Some p \<Rightarrow> Arr xs (AList.update p v ps) | None \<Rightarrow> Arr xs ps)"

fun delete_named :: "string \<Rightarrow> obj \<Rightarrow> obj" where
  "delete_named k (Obj ps) = Obj (AList.delete k ps)"
| "delete_named k (Arr xs ps) =
     (case array_prop_of k of Some p \<Rightarrow> Arr xs (AList.delete p ps) | None \<Rightarrow> Arr xs ps)"

subsection \<open>Effects\<close>

definition console_log :: "string \<Rightarrow> state \<Rightarrow> state" where
  "console_log msg s = s\<lparr>console := console s @ [ConsoleLog msg]\<rparr>"

definition console_error :: "string \<Rightarrow> state \<Rightarrow> state" where
  "console_error msg s = s\<lparr>console := console s @ [ConsoleError msg]\<rparr>"

text \<open>A new object: it gets the next unused address.\<close>

definition alloc :: "obj \<Rightarrow> state \<Rightarrow> completion \<times> state" where
  "alloc ob s =
     (Return (JRef (next_addr s)),
      s\<lparr>heap := (heap s)(next_addr s := ob), next_addr := Suc (next_addr s)\<rparr>)"

text \<open>
  The read \<^verbatim>\<open>base.k\<close> for a name \<open>k\<close> that no built-in prototype defines (the source
  reads \<^verbatim>\<open>cast\<close>, \<^verbatim>\<open>title\<close>, \<^verbatim>\<open>year\<close>, an own property it has just checked, and the
  \<^verbatim>\<open>length\<close> of an array): the own property, or \<^verbatim>\<open>undefined\<close>. Reading a property
  of \<^verbatim>\<open>undefined\<close> or \<^verbatim>\<open>null\<close> throws.
\<close>

definition get_prop :: "state \<Rightarrow> val \<Rightarrow> string \<Rightarrow> completion" where
  "get_prop s base k =
     (if base = Undefined \<or> base = Null then Throw TypeError
      else case own_prop s base k of Some v \<Rightarrow> Return v | None \<Rightarrow> Return Undefined)"

text \<open>
  The strict-mode assignment \<^verbatim>\<open>base.k = v\<close>. On an object it creates or overwrites the
  own property. On a primitive it throws: \<^verbatim>\<open>undefined\<close> and \<^verbatim>\<open>null\<close> have no
  properties, and strict code may not create a property on a boolean, number or string.
\<close>

definition put_prop :: "val \<Rightarrow> string \<Rightarrow> val \<Rightarrow> state \<Rightarrow> completion \<times> state" where
  "put_prop base k v s =
     (case base of
        JRef a \<Rightarrow> (Return v, s\<lparr>heap := (heap s)(a := set_named k v (heap s a))\<rparr>)
      | _ \<Rightarrow> (Throw TypeError, s))"

text \<open>
  \<^verbatim>\<open>delete base.k\<close> for a name \<open>k\<close> that is no index and not \<^verbatim>\<open>length\<close>: on an
  object the own property goes; a boolean, number or string has no such property and
  nothing happens.
\<close>

definition delete_prop :: "val \<Rightarrow> string \<Rightarrow> state \<Rightarrow> completion \<times> state" where
  "delete_prop base k s =
     (case base of
        JRef a \<Rightarrow> (Return (JBool True), s\<lparr>heap := (heap s)(a := delete_named k (heap s a))\<rparr>)
      | Undefined \<Rightarrow> (Throw TypeError, s)
      | Null \<Rightarrow> (Throw TypeError, s)
      | _ \<Rightarrow> (Return (JBool True), s))"

text \<open>
  \<^verbatim>\<open>Object.prototype.hasOwnProperty.call(base, k)\<close>: the built-in method itself, applied
  to \<open>base\<close>.
\<close>

definition hasOwnProperty_call :: "state \<Rightarrow> val \<Rightarrow> string \<Rightarrow> completion" where
  "hasOwnProperty_call s base k =
     (if base = Undefined \<or> base = Null then Throw TypeError
      else Return (JBool (own_prop s base k \<noteq> None)))"

text \<open>
  \<^verbatim>\<open>base.hasOwnProperty(k)\<close>: the method is looked up on \<open>base\<close> first. An own property
  named \<^verbatim>\<open>hasOwnProperty\<close>, which an object parsed from JSON can have, shadows the
  inherited method, and since no value of the model is callable, calling it throws.
  Otherwise the lookup reaches \<^verbatim>\<open>Object.prototype.hasOwnProperty\<close>.
\<close>

definition hasOwnProperty_method :: "state \<Rightarrow> val \<Rightarrow> string \<Rightarrow> completion" where
  "hasOwnProperty_method s base k =
     (if base = Undefined \<or> base = Null then Throw TypeError
      else case own_prop s base ''hasOwnProperty'' of
             Some f \<Rightarrow> Throw TypeError
           | None \<Rightarrow> hasOwnProperty_call s base k)"

definition isArray :: "state \<Rightarrow> val \<Rightarrow> bool" where
  "isArray s v =
     (case v of
        JRef a \<Rightarrow> (case heap s a of Arr xs ps \<Rightarrow> True | Obj ps \<Rightarrow> False)
      | _ \<Rightarrow> False)"

text \<open>
  \<^verbatim>\<open>arr.push(v)\<close>: on an array the method is \<^verbatim>\<open>Array.prototype.push\<close> (no array of the
  model has an own property of that name), which appends and returns the new length. On a
  plain object or a primitive there is no such method and the call throws.
\<close>

definition array_push :: "val \<Rightarrow> val \<Rightarrow> state \<Rightarrow> completion \<times> state" where
  "array_push arr v s =
     (case arr of
        JRef a \<Rightarrow>
          (case heap s a of
             Arr xs ps \<Rightarrow>
               (Return (num (of_nat (Suc (length xs)))),
                s\<lparr>heap := (heap s)(a := Arr (xs @ [v]) ps)\<rparr>)
           | Obj ps \<Rightarrow> (Throw TypeError, s))
      | _ \<Rightarrow> (Throw TypeError, s))"

text \<open>
  \<^verbatim>\<open>arr.includes(v)\<close>, \<^verbatim>\<open>Array.prototype.includes\<close> on an array: whether an element is
  the same value as \<open>v\<close>.
\<close>

definition array_includes :: "val list \<Rightarrow> val \<Rightarrow> bool" where
  "array_includes xs v = list_ex (\<lambda>x. same_value_zero x v) xs"

definition includes_method :: "state \<Rightarrow> val \<Rightarrow> val \<Rightarrow> completion" where
  "includes_method s arr v =
     (case arr of
        JRef a \<Rightarrow>
          (case heap s a of
             Arr xs ps \<Rightarrow> Return (JBool (array_includes xs v))
           | Obj ps \<Rightarrow> Throw TypeError)
      | _ \<Rightarrow> Throw TypeError)"

text \<open>
  \<^verbatim>\<open>Object.keys(v)\<close>: a new array of the own enumerable property names. The source calls
  it on values that passed \<^verbatim>\<open>isObject\<close> only.
\<close>

definition Object_keys :: "val \<Rightarrow> state \<Rightarrow> completion \<times> state" where
  "Object_keys v s =
     (case v of
        JRef a \<Rightarrow> alloc (Arr (map JStr (own_keys (heap s a))) []) s
      | JStr str \<Rightarrow> alloc (Arr (map JStr (map index_key [0..<length str])) []) s
      | Undefined \<Rightarrow> (Throw TypeError, s)
      | Null \<Rightarrow> (Throw TypeError, s)
      | _ \<Rightarrow> alloc (Arr [] []) s)"

section \<open>Module movie-manipulation\<close>

text \<open>
  \<^verbatim>\<open>const allowedGenres = [...]\<close> is evaluated once, when the module is loaded: the array
  lives in the heap and the module holds its address. \<open>module_loaded\<close> says that the
  module has been loaded and the array is as the literal wrote it.
\<close>

definition allowedGenres_literal :: "val list" where
  "allowedGenres_literal =
     [JStr ''Animation'', JStr ''Family'', JStr ''Action'', JStr ''Comedy'', JStr ''Drama'',
      JStr ''Sci-Fi'']"

definition allowedGenres :: addr where
  "allowedGenres = 0"

definition initial_state :: state where
  "initial_state =
     \<lparr>heap = (\<lambda>a. Obj [])(allowedGenres := Arr allowedGenres_literal []),
      next_addr = Suc allowedGenres, console = []\<rparr>"

definition module_loaded :: "state \<Rightarrow> bool" where
  "module_loaded s =
     (heap s allowedGenres = Arr allowedGenres_literal [] \<and> allowedGenres < next_addr s)"

definition setMovieRating :: "val \<Rightarrow> val \<Rightarrow> state \<Rightarrow> completion \<times> state" where
  "setMovieRating movie rating s =
     (if truthy movie \<and> typeof rating = ''number'' \<and> js_ge rating (num 0)
         \<and> js_le rating (num 10)
      then (case put_prop movie ''rating'' rating s of
              (Throw e, s') \<Rightarrow> (Throw e, s')
            | (Return r, s') \<Rightarrow> (Return movie, s'))
      else (Return movie, console_error ''Invalid movie object or rating'' s))"

definition addMovieGenre :: "val \<Rightarrow> val \<Rightarrow> state \<Rightarrow> completion \<times> state" where
  "addMovieGenre movie genre s =
     (if \<not> (truthy movie \<and> typeof genre = ''string'')
      then (Return movie, console_error ''Invalid movie object or genre'' s)
      else case includes_method s (JRef allowedGenres) genre of
             Throw e \<Rightarrow> (Throw e, s)
           | Return found \<Rightarrow>
               if truthy found
               then (case put_prop movie ''genre'' genre s of
                       (Throw e, s') \<Rightarrow> (Throw e, s')
                     | (Return r, s') \<Rightarrow> (Return movie, s'))
               else (Return movie, console_error ''Invalid movie object or genre'' s))"

definition removeDirectorProperty :: "val \<Rightarrow> state \<Rightarrow> completion \<times> state" where
  "removeDirectorProperty movie s =
     (if \<not> truthy movie
      then (Return movie,
            console_error ''Invalid movie object or director property does not exist'' s)
      else case hasOwnProperty_method s movie ''director'' of
             Throw e \<Rightarrow> (Throw e, s)
           | Return has \<Rightarrow>
               if truthy has
               then (case delete_prop movie ''director'' s of
                       (Throw e, s') \<Rightarrow> (Throw e, s')
                     | (Return r, s') \<Rightarrow> (Return movie, s'))
               else (Return movie,
                     console_error ''Invalid movie object or director property does not exist''
                       s))"

definition addCastMember :: "val \<Rightarrow> val \<Rightarrow> state \<Rightarrow> completion \<times> state" where
  "addCastMember movie newMember s =
     (if \<not> truthy movie
      then (Return movie, console_error ''Invalid movie object, cast array, or new member'' s)
      else case get_prop s movie ''cast'' of
             Throw e \<Rightarrow> (Throw e, s)
           | Return cast \<Rightarrow>
               if isArray s cast \<and> typeof newMember = ''string''
               then (case array_push cast newMember s of
                       (Throw e, s') \<Rightarrow> (Throw e, s')
                     | (Return r, s') \<Rightarrow> (Return movie, s'))
               else (Return movie,
                     console_error ''Invalid movie object, cast array, or new member'' s))"

text \<open>
  \<^verbatim>\<open>[...allowedGenres]\<close>: a new array with the elements of the module's array (its named
  properties are not copied by a spread).
\<close>

definition getAllowedGenres :: "state \<Rightarrow> completion \<times> state" where
  "getAllowedGenres s =
     (case heap s allowedGenres of
        Arr xs ps \<Rightarrow> alloc (Arr xs []) s
      | Obj ps \<Rightarrow> (Throw TypeError, s))"

section \<open>Module movie-validation\<close>

definition isObject :: "val \<Rightarrow> bool" where
  "isObject v = (\<not> strict_eq v Null \<and> strict_eq (JStr (typeof v)) (JStr ''object''))"

definition hasPropertyOfType :: "val \<Rightarrow> string \<Rightarrow> val \<Rightarrow> state \<Rightarrow> completion \<times> state" where
  "hasPropertyOfType ob prop expectedType s =
     (if \<not> isObject ob then (Return (JBool False), s)
      else case hasOwnProperty_call s ob prop of
             Throw e \<Rightarrow> (Throw e, s)
           | Return has \<Rightarrow>
               if \<not> truthy has then (Return has, s)
               else (case get_prop s ob prop of
                       Throw e \<Rightarrow> (Throw e, s)
                     | Return v \<Rightarrow>
                         (Return (JBool (strict_eq (JStr (typeof v)) expectedType)), s)))"

definition getMovieTitle :: "val \<Rightarrow> state \<Rightarrow> completion \<times> state" where
  "getMovieTitle movie s =
     (case hasPropertyOfType movie ''title'' (JStr ''string'') s of
        (Throw e, s1) \<Rightarrow> (Throw e, s1)
      | (Return has, s1) \<Rightarrow>
          if \<not> truthy has
          then (Return (JStr ''''),
                console_log ''getMovieTitle: Invalid movie object or title missing.'' s1)
          else (get_prop s1 movie ''title'', s1))"

definition getMovieYear :: "val \<Rightarrow> state \<Rightarrow> completion \<times> state" where
  "getMovieYear movie s =
     (case hasPropertyOfType movie ''year'' (JStr ''number'') s of
        (Throw e, s1) \<Rightarrow> (Throw e, s1)
      | (Return has, s1) \<Rightarrow>
          if \<not> truthy has
          then (Return (num 0),
                console_log ''getMovieYear: Invalid movie object or year missing.'' s1)
          else (get_prop s1 movie ''year'', s1))"

definition isMovieClassic :: "val \<Rightarrow> state \<Rightarrow> completion \<times> state" where
  "isMovieClassic movie s =
     (case getMovieYear movie s of
        (Throw e, s1) \<Rightarrow> (Throw e, s1)
      | (Return year, s1) \<Rightarrow>
          if strict_eq year (num 0)
          then (Return (JBool False),
                console_log ''isMovieClassic: Movie object invalid or missing year.'' s1)
          else (Return (JBool (js_lt year (num 2000))), s1))"

definition getMovieKeys :: "val \<Rightarrow> state \<Rightarrow> completion \<times> state" where
  "getMovieKeys movie s =
     (if \<not> isObject movie
      then alloc (Arr [] [])
             (console_log ''getMovieKeys: Provided input is not a valid object.'' s)
      else Object_keys movie s)"

definition getMoviePropertiesCount :: "val \<Rightarrow> state \<Rightarrow> completion \<times> state" where
  "getMoviePropertiesCount movie s =
     (if \<not> isObject movie
      then (Return (num 0),
            console_log ''getMoviePropertiesCount: Provided input is not a valid object.'' s)
      else case getMovieKeys movie s of
             (Throw e, s1) \<Rightarrow> (Throw e, s1)
           | (Return keys, s1) \<Rightarrow> (get_prop s1 keys ''length'', s1))"

section \<open>Example heaps\<close>

text \<open>
  The state after the module has been loaded and the caller has created one object (and,
  for the second form, an array that the object may refer to).
\<close>

definition with_object :: "obj \<Rightarrow> state" where
  "with_object ob =
     initial_state\<lparr>heap := (heap initial_state)(1 := ob), next_addr := 2\<rparr>"

definition with_objects :: "obj \<Rightarrow> obj \<Rightarrow> state" where
  "with_objects ob ob' =
     initial_state\<lparr>heap := (heap initial_state)(1 := ob, 2 := ob'), next_addr := 3\<rparr>"

text \<open>The sample movie of the source's example section; its cast is the array at address 2.\<close>

definition toy_story :: obj where
  "toy_story =
     Obj [(''id'', num 1), (''title'', JStr ''Toy Story''), (''director'', JStr ''John Lasseter''),
          (''year'', num 1995), (''genre'', JStr ''Animation''), (''rating'', num (83 / 10)),
          (''cast'', JRef 2)]"

definition toy_story_cast :: obj where
  "toy_story_cast = Arr [JStr ''Tom Hanks'', JStr ''Tim Allen'', JStr ''Don Rickles''] []"

section \<open>Basic facts\<close>

lemma isObject_iff: "isObject v \<longleftrightarrow> (\<exists>a. v = JRef a)"
  by (cases v) (simp_all add: isObject_def)

subsection \<open>Index names\<close>

lemma digit_char_inj: "a < 10 \<Longrightarrow> b < 10 \<Longrightarrow> digit_char a = digit_char b \<Longrightarrow> a = b"
proof -
  assume a: "a < 10" and b: "b < 10" and e: "digit_char a = digit_char b"
  have d: "distinct ''0123456789''" by simp
  have "length ''0123456789'' = 10" by simp
  with a b e d show "a = b"
    unfolding digit_char_def by (metis nth_eq_iff_index_eq)
qed

lemma digit_char_in: "d < 10 \<Longrightarrow> digit_char d \<in> set ''0123456789''"
  unfolding digit_char_def by (rule nth_mem) simp

lemma index_key_digits: "set (index_key n) \<subseteq> set ''0123456789''"
proof (induction n rule: index_key.induct)
  case (1 n)
  show ?case
  proof (cases "n < 10")
    case True
    then show ?thesis using digit_char_in[of n] by (subst index_key.simps) simp
  next
    case False
    have "n mod 10 < 10" by simp
    then have "digit_char (n mod 10) \<in> set ''0123456789''" by (rule digit_char_in)
    with False 1 show ?thesis by (subst index_key.simps) simp
  qed
qed

lemma index_key_nonempty: "index_key n \<noteq> []"
  by (subst index_key.simps) simp

lemma index_key_inj: "index_key n = index_key m \<Longrightarrow> n = m"
proof (induction n arbitrary: m rule: index_key.induct)
  case (1 n)
  show ?case
  proof (cases "n < 10")
    case n: True
    show ?thesis
    proof (cases "m < 10")
      case True
      with n 1(2) show ?thesis
        by (simp add: index_key.simps[of n] index_key.simps[of m] digit_char_inj)
    next
      case False
      with n 1(2) index_key_nonempty[of "m div 10"] show ?thesis
        by (simp add: index_key.simps[of n] index_key.simps[of m])
    qed
  next
    case n: False
    show ?thesis
    proof (cases "m < 10")
      case True
      with n 1(2) index_key_nonempty[of "n div 10"] show ?thesis
        by (simp add: index_key.simps[of n] index_key.simps[of m])
    next
      case False
      with n 1(2) have e: "index_key (n div 10) = index_key (m div 10)"
        and d: "digit_char (n mod 10) = digit_char (m mod 10)"
        by (simp_all add: index_key.simps[of n] index_key.simps[of m])
      from 1(1)[OF n e] have "n div 10 = m div 10" .
      moreover from d have "n mod 10 = m mod 10" by (rule digit_char_inj[rotated 2]) simp_all
      ultimately show ?thesis by (metis div_mult_mod_eq)
    qed
  qed
qed

lemma array_index_key: "i < n \<Longrightarrow> array_index n (index_key i) = Some i"
proof -
  assume "i < n"
  then have "find (\<lambda>j. index_key j = index_key i) [0..<n] = Some i"
    unfolding find_Some_iff by (intro exI[of _ i]) (auto dest: index_key_inj)
  then show ?thesis by (simp add: array_index_def)
qed

lemma array_index_named: "\<not> set k \<subseteq> set ''0123456789'' \<Longrightarrow> array_index n k = None"
  using index_key_digits by (auto simp: array_index_def find_None_iff)

subsection \<open>Numbers and values\<close>

lemma num_lt_Fin [simp]: "num_lt (Fin q) (Fin r) \<longleftrightarrow> q < r"
  by (simp add: num_lt_def)

lemma num_eq_Fin [simp]: "num_eq (Fin q) (Fin r) \<longleftrightarrow> q = r"
  by (simp add: num_eq_def)

lemma num_le_Fin [simp]: "num_le (Fin q) (Fin r) \<longleftrightarrow> q \<le> r"
  by (auto simp: num_le_def)

lemma strict_eq_JStr [simp]: "strict_eq (JStr x) v \<longleftrightarrow> v = JStr x"
  by (cases v) auto

lemma hasPropertyOfType_eq:
  "hasPropertyOfType ob prop t s =
     (Return (JBool (isObject ob \<and> (\<exists>v. own_prop s ob prop = Some v \<and> t = JStr (typeof v)))), s)"
  by (cases ob)
     (auto simp: hasPropertyOfType_def isObject_def hasOwnProperty_call_def get_prop_def
           split: option.splits)

subsection \<open>The accessors\<close>

lemma getMovieYear_eq:
  "getMovieYear movie s =
     (case movie of
        JRef a \<Rightarrow>
          (case own_property (heap s a) ''year'' of
             Some (JNum n) \<Rightarrow> (Return (JNum n), s)
           | _ \<Rightarrow> (Return (num 0),
                   console_log ''getMovieYear: Invalid movie object or year missing.'' s))
      | _ \<Rightarrow> (Return (num 0),
              console_log ''getMovieYear: Invalid movie object or year missing.'' s))"
  by (cases movie)
     (auto simp: getMovieYear_def hasPropertyOfType_eq isObject_def get_prop_def
           split: option.splits val.splits)

lemma console_log_heap [simp]: "heap (console_log m s) = heap s"
  and console_error_heap [simp]: "heap (console_error m s) = heap s"
  and console_log_next [simp]: "next_addr (console_log m s) = next_addr s"
  and console_error_next [simp]: "next_addr (console_error m s) = next_addr s"
  by (simp_all add: console_log_def console_error_def)

lemma getMovieYear_number: "\<exists>n s'. getMovieYear movie s = (Return (JNum n), s') \<and> heap s' = heap s"
  by (auto simp: getMovieYear_eq split: val.splits option.splits)

lemma isMovieClassic_eq:
  "getMovieYear movie s = (Return (JNum n), s1) \<Longrightarrow>
   isMovieClassic movie s =
     (if num_eq n (Fin 0)
      then (Return (JBool False),
            console_log ''isMovieClassic: Movie object invalid or missing year.'' s1)
      else (Return (JBool (num_lt n (Fin 2000))), s1))"
  by (simp add: isMovieClassic_def)

lemma example_heap_simps [simp]:
  "heap (with_object ob) 1 = ob"
  "heap (with_object ob) (Suc 0) = ob"
  "heap (with_objects ob ob') 1 = ob"
  "heap (with_objects ob ob') (Suc 0) = ob"
  "heap (with_objects ob ob') 2 = ob'"
  "heap initial_state allowedGenres = Arr allowedGenres_literal []"
  "heap (with_object ob) allowedGenres = Arr allowedGenres_literal []"
  "heap (with_objects ob ob') allowedGenres = Arr allowedGenres_literal []"
  by (simp_all add: with_object_def with_objects_def initial_state_def allowedGenres_def)

subsection \<open>Named properties\<close>

text \<open>A name with a character that is no digit is not the name of an index.\<close>

lemma seq_property_named:
  "\<not> set k \<subseteq> set ''0123456789'' \<Longrightarrow>
   seq_property xs elem named k =
     (if k = ''length'' then Some (num (of_nat (length xs))) else named k)"
  by (simp add: seq_property_def array_index_named)

lemma named_not_index: "\<not> set k \<subseteq> set ''0123456789'' \<Longrightarrow> k \<notin> index_key ` A"
  using index_key_digits by auto

lemma array_prop_of_name [simp]: "array_prop_of (prop_name p) = Some p"
  by (cases p) (simp_all add: array_prop_of_def)

lemma array_prop_of_Some: "array_prop_of k = Some p \<longleftrightarrow> k = prop_name p"
  by (cases p) (auto simp: array_prop_of_def split: if_splits)

lemma prop_name_inj [simp]: "prop_name p = prop_name q \<longleftrightarrow> p = q"
  by (cases p; cases q) simp_all

lemma prop_name_not_length [simp]: "prop_name p \<noteq> ''length''"
  by (cases p) simp_all

lemma prop_name_not_index [simp]: "prop_name p \<notin> index_key ` A"
  by (cases p) (simp_all add: named_not_index)

lemma array_index_prop_name [simp]: "array_index n (prop_name p) = None"
  by (cases p) (simp_all add: array_index_named)

lemma seq_property_prop_name [simp]:
  "seq_property xs elem named (prop_name p) = named (prop_name p)"
  by (simp add: seq_property_def)

lemma named_property_update:
  "named_property (AList.update p v ps) k =
     (if k = prop_name p then Some v else named_property ps k)"
  by (auto simp: named_property_def update_conv' array_prop_of_Some split: option.splits)

lemma named_property_delete:
  "named_property (AList.delete p ps) k =
     (if k = prop_name p then None else named_property ps k)"
  by (auto simp: named_property_def delete_conv' array_prop_of_Some split: option.splits)

lemma named_property_other: "array_prop_of k = None \<Longrightarrow> named_property ps k = None"
  by (simp add: named_property_def)

text \<open>
  Writing \<^verbatim>\<open>rating\<close> or \<^verbatim>\<open>genre\<close>, on a plain object or on an array.
\<close>

lemma own_property_set_named:
  "own_property (set_named (prop_name p) v ob) k =
     (if k = prop_name p then Some v else own_property ob k)"
proof (cases ob)
  case (Obj ps)
  then show ?thesis by (simp add: update_conv')
next
  case (Arr xs ps)
  show ?thesis
  proof (cases "k = prop_name p")
    case True
    with Arr show ?thesis by (simp add: named_property_update)
  next
    case False
    with Arr show ?thesis
      by (simp add: seq_property_def named_property_update split: option.splits)
  qed
qed

lemma own_keys_set_named_filter:
  "filter (\<lambda>k'. k' \<noteq> prop_name p) (own_keys (set_named (prop_name p) v ob))
     = filter (\<lambda>k'. k' \<noteq> prop_name p) (own_keys ob)"
  by (cases ob) (simp_all add: update_keys)

lemma own_keys_set_named:
  "own_keys (set_named (prop_name p) v ob) =
     (if prop_name p \<in> set (own_keys ob) then own_keys ob else own_keys ob @ [prop_name p])"
proof (cases ob)
  case (Obj ps)
  then show ?thesis by (simp add: update_keys)
next
  case (Arr xs ps)
  have "prop_name p \<notin> index_key ` set [0..<length xs]"
    by simp
  moreover have "prop_name p \<in> (\<lambda>x. prop_name (fst x)) ` set ps \<longleftrightarrow> p \<in> fst ` set ps"
    by (auto simp: image_iff)
  ultimately have "prop_name p \<in> set (own_keys ob) \<longleftrightarrow> p \<in> set (map fst ps)"
    using Arr by simp
  with Arr show ?thesis by (simp add: update_keys)
qed

text \<open>Deleting a property under a name that is no index and not \<^verbatim>\<open>length\<close>.\<close>

lemma own_property_delete_named:
  assumes "\<not> set k \<subseteq> set ''0123456789''" and "k \<noteq> ''length''"
  shows "own_property (delete_named k ob) k' = (if k' = k then None else own_property ob k')"
proof (cases ob)
  case (Obj ps)
  then show ?thesis by (simp add: delete_conv')
next
  case (Arr xs ps)
  show ?thesis
  proof (cases "array_prop_of k")
    case None
    with Arr assms show ?thesis
      by (simp add: seq_property_named named_property_other)
  next
    case (Some p)
    then have k: "k = prop_name p" by (simp add: array_prop_of_Some)
    show ?thesis
    proof (cases "k' = k")
      case True
      with Arr Some k show ?thesis by (simp add: named_property_delete)
    next
      case False
      with Arr Some k show ?thesis
        by (simp add: seq_property_def named_property_delete split: option.splits)
    qed
  qed
qed

lemma filter_removeAll_same: "filter (\<lambda>k'. k' \<noteq> k) (removeAll k xs) = filter (\<lambda>k'. k' \<noteq> k) xs"
  by (induction xs) simp_all

lemma map_prop_name_removeAll:
  "map prop_name (removeAll p ps) = removeAll (prop_name p) (map prop_name ps)"
  by (induction ps) auto

lemma own_keys_delete_named_filter:
  "filter (\<lambda>k'. k' \<noteq> k) (own_keys (delete_named k ob)) = filter (\<lambda>k'. k' \<noteq> k) (own_keys ob)"
proof (cases ob)
  case (Obj ps)
  then show ?thesis by (simp add: delete_keys filter_removeAll_same)
next
  case (Arr xs ps)
  show ?thesis
  proof (cases "array_prop_of k")
    case None
    with Arr show ?thesis by simp
  next
    case (Some p)
    then have k: "k = prop_name p" by (simp add: array_prop_of_Some)
    with Arr Some show ?thesis
      by (simp add: delete_keys map_prop_name_removeAll filter_removeAll_same)
  qed
qed

lemma names_not_indices [simp]:
  "\<not> set ''rating'' \<subseteq> set ''0123456789''"
  "\<not> set ''genre'' \<subseteq> set ''0123456789''"
  "\<not> set ''director'' \<subseteq> set ''0123456789''"
  "\<not> set ''cast'' \<subseteq> set ''0123456789''"
  "\<not> set ''hasOwnProperty'' \<subseteq> set ''0123456789''"
  by simp_all

lemma set_named_rating:
  "own_property (set_named ''rating'' v ob) k = (if k = ''rating'' then Some v else own_property ob k)"
  "filter (\<lambda>k'. k' \<noteq> ''rating'') (own_keys (set_named ''rating'' v ob))
     = filter (\<lambda>k'. k' \<noteq> ''rating'') (own_keys ob)"
  using own_property_set_named [of Rating v ob k] own_keys_set_named_filter [of Rating v ob]
  by simp_all

lemma set_named_genre:
  "own_property (set_named ''genre'' v ob) k = (if k = ''genre'' then Some v else own_property ob k)"
  "filter (\<lambda>k'. k' \<noteq> ''genre'') (own_keys (set_named ''genre'' v ob))
     = filter (\<lambda>k'. k' \<noteq> ''genre'') (own_keys ob)"
  "own_keys (set_named ''genre'' v ob) =
     (if ''genre'' \<in> set (own_keys ob) then own_keys ob else own_keys ob @ [''genre''])"
  using own_property_set_named [of Genre v ob k] own_keys_set_named_filter [of Genre v ob]
    own_keys_set_named [of Genre v ob]
  by simp_all

subsection \<open>The mutators\<close>

lemma js_range_iff:
  "typeof rating = ''number'' \<and> js_ge rating (num 0) \<and> js_le rating (num 10) \<longleftrightarrow>
   (\<exists>q. rating = num q \<and> 0 \<le> q \<and> q \<le> 10) \<or> rating = JNum NegZero"
proof (cases rating)
  case (JNum n)
  then show ?thesis
    by (cases n) (auto simp: num_le_def num_lt_def num_eq_def)
qed simp_all

lemma setMovieRating_ref:
  "setMovieRating (JRef a) rating s =
     (if typeof rating = ''number'' \<and> js_ge rating (num 0) \<and> js_le rating (num 10)
      then (Return (JRef a), s\<lparr>heap := (heap s)(a := set_named ''rating'' rating (heap s a))\<rparr>)
      else (Return (JRef a), console_error ''Invalid movie object or rating'' s))"
  by (simp add: setMovieRating_def put_prop_def)

lemma setMovieRating_cases:
  "setMovieRating movie rating s = (r, s') \<Longrightarrow>
     (\<exists>a. movie = JRef a \<and> r = Return movie \<and>
          s' = s\<lparr>heap := (heap s)(a := set_named ''rating'' rating (heap s a))\<rparr>)
     \<or> (r = Return movie \<and> s' = console_error ''Invalid movie object or rating'' s)
     \<or> (r = Throw TypeError \<and> s' = s)"
  by (cases movie) (auto simp: setMovieRating_def put_prop_def split: if_splits)

lemma addMovieGenre_ref:
  "heap s allowedGenres = Arr xs ps \<Longrightarrow>
   addMovieGenre (JRef a) genre s =
     (if typeof genre = ''string'' \<and> array_includes xs genre
      then (Return (JRef a), s\<lparr>heap := (heap s)(a := set_named ''genre'' genre (heap s a))\<rparr>)
      else (Return (JRef a), console_error ''Invalid movie object or genre'' s))"
  by (simp add: addMovieGenre_def includes_method_def put_prop_def)

lemma addMovieGenre_cases:
  "addMovieGenre movie genre s = (r, s') \<Longrightarrow>
     (\<exists>a. movie = JRef a \<and> r = Return movie \<and>
          s' = s\<lparr>heap := (heap s)(a := set_named ''genre'' genre (heap s a))\<rparr>)
     \<or> (r = Return movie \<and> s' = console_error ''Invalid movie object or genre'' s)
     \<or> (r = Throw TypeError \<and> s' = s)"
  by (cases movie; cases "heap s allowedGenres")
     (auto simp: addMovieGenre_def includes_method_def put_prop_def
           split: if_splits option.splits)

lemma same_value_zero_JStr [simp]: "same_value_zero (JStr x) v \<longleftrightarrow> v = JStr x"
  by (cases v) auto

lemma includes_allowedGenres:
  "typeof genre = ''string'' \<and> array_includes allowedGenres_literal genre \<longleftrightarrow>
   genre \<in> JStr ` {''Animation'', ''Family'', ''Action'', ''Comedy'', ''Drama'', ''Sci-Fi''}"
  by (cases genre) (auto simp: array_includes_def allowedGenres_literal_def)

lemma removeDirectorProperty_ref:
  "removeDirectorProperty (JRef a) s =
     (if own_property (heap s a) ''hasOwnProperty'' \<noteq> None then (Throw TypeError, s)
      else if own_property (heap s a) ''director'' \<noteq> None
      then (Return (JRef a), s\<lparr>heap := (heap s)(a := delete_named ''director'' (heap s a))\<rparr>)
      else (Return (JRef a),
            console_error ''Invalid movie object or director property does not exist'' s))"
  by (auto simp: removeDirectorProperty_def hasOwnProperty_method_def hasOwnProperty_call_def
        delete_prop_def split: option.splits)

lemma removeDirectorProperty_primitive:
  "\<forall>a. movie \<noteq> JRef a \<Longrightarrow>
   removeDirectorProperty movie s =
     (Return movie, console_error ''Invalid movie object or director property does not exist'' s)"
  by (cases movie)
     (auto simp: removeDirectorProperty_def hasOwnProperty_method_def hasOwnProperty_call_def
        seq_property_named)

lemma removeDirectorProperty_cases:
  "removeDirectorProperty movie s = (r, s') \<Longrightarrow>
     (\<exists>a. movie = JRef a \<and> r = Return movie \<and>
          s' = s\<lparr>heap := (heap s)(a := delete_named ''director'' (heap s a))\<rparr>)
     \<or> (r = Return movie \<and>
         s' = console_error ''Invalid movie object or director property does not exist'' s)
     \<or> (r = Throw TypeError \<and> s' = s)"
proof (cases "\<exists>a. movie = JRef a")
  case True
  then obtain a where "movie = JRef a" ..
  then show "removeDirectorProperty movie s = (r, s') \<Longrightarrow> ?thesis"
    by (auto simp: removeDirectorProperty_ref split: if_splits)
next
  case False
  then show "removeDirectorProperty movie s = (r, s') \<Longrightarrow> ?thesis"
    by (simp add: removeDirectorProperty_primitive)
qed

lemma addCastMember_valid:
  "own_property (heap s a) ''cast'' = Some (JRef c) \<Longrightarrow> heap s c = Arr xs ps \<Longrightarrow>
   addCastMember (JRef a) (JStr str) s =
     (Return (JRef a), s\<lparr>heap := (heap s)(c := Arr (xs @ [JStr str]) ps)\<rparr>)"
  by (simp add: addCastMember_def get_prop_def isArray_def array_push_def)

lemma addCastMember_invalid:
  assumes "\<not> (\<exists>a c xs ps str. movie = JRef a \<and>
            own_property (heap s a) ''cast'' = Some (JRef c) \<and> heap s c = Arr xs ps \<and>
            x = JStr str)"
  shows "addCastMember movie x s =
     (Return movie, console_error ''Invalid movie object, cast array, or new member'' s)"
proof (cases movie)
  case (JRef a)
  with assms show ?thesis
    by (cases x)
       (auto simp: addCastMember_def get_prop_def isArray_def
             split: option.splits val.splits obj.splits)
next
  case (JStr str)
  then show ?thesis
    by (auto simp: addCastMember_def get_prop_def isArray_def seq_property_named)
qed (auto simp: addCastMember_def get_prop_def isArray_def)

lemma addCastMember_cases:
  "addCastMember movie x s = (r, s') \<Longrightarrow>
     (\<exists>c xs ps. get_prop s movie ''cast'' = Return (JRef c) \<and> heap s c = Arr xs ps \<and>
          r = Return movie \<and> s' = s\<lparr>heap := (heap s)(c := Arr (xs @ [x]) ps)\<rparr>)
     \<or> (r = Return movie \<and>
         s' = console_error ''Invalid movie object, cast array, or new member'' s)"
proof (cases "\<exists>a c xs ps str. movie = JRef a \<and>
            own_property (heap s a) ''cast'' = Some (JRef c) \<and> heap s c = Arr xs ps \<and>
            x = JStr str")
  case True
  then obtain a c xs ps str where "movie = JRef a"
    "own_property (heap s a) ''cast'' = Some (JRef c)" "heap s c = Arr xs ps" "x = JStr str"
    by blast
  then show "addCastMember movie x s = (r, s') \<Longrightarrow> ?thesis"
    by (auto simp: addCastMember_valid get_prop_def)
next
  case False
  then show "addCastMember movie x s = (r, s') \<Longrightarrow> ?thesis"
    by (simp add: addCastMember_invalid)
qed

lemma module_loaded_examples [simp]:
  "module_loaded initial_state"
  "module_loaded (with_object ob)"
  "module_loaded (with_objects ob ob')"
  by (simp_all add: module_loaded_def with_object_def with_objects_def initial_state_def
        allowedGenres_def)

subsection \<open>Frames\<close>

lemma frame_set_named:
  assumes "s' = s\<lparr>heap := (heap s)(a := set_named (prop_name p) v (heap s a))\<rparr>"
  shows "next_addr s' = next_addr s \<and>
     (\<forall>b. (JRef a \<noteq> JRef b \<longrightarrow> heap s' b = heap s b) \<and>
          (\<forall>k'. k' \<noteq> prop_name p \<longrightarrow> own_property (heap s' b) k' = own_property (heap s b) k') \<and>
          filter (\<lambda>k'. k' \<noteq> prop_name p) (own_keys (heap s' b))
            = filter (\<lambda>k'. k' \<noteq> prop_name p) (own_keys (heap s b)))"
  using assms by (simp add: own_property_set_named own_keys_set_named_filter)

lemma frame_delete_named:
  assumes "s' = s\<lparr>heap := (heap s)(a := delete_named k (heap s a))\<rparr>"
    and "\<not> set k \<subseteq> set ''0123456789''" and "k \<noteq> ''length''"
  shows "next_addr s' = next_addr s \<and>
     (\<forall>b. (JRef a \<noteq> JRef b \<longrightarrow> heap s' b = heap s b) \<and>
          (\<forall>k'. k' \<noteq> k \<longrightarrow> own_property (heap s' b) k' = own_property (heap s b) k') \<and>
          filter (\<lambda>k'. k' \<noteq> k) (own_keys (heap s' b))
            = filter (\<lambda>k'. k' \<noteq> k) (own_keys (heap s b)))"
  using assms by (simp add: own_property_delete_named own_keys_delete_named_filter)

lemma frame_unchanged:
  assumes "heap s' = heap s" and "next_addr s' = next_addr s"
  shows "next_addr s' = next_addr s \<and>
     (\<forall>b. (movie \<noteq> JRef b \<longrightarrow> heap s' b = heap s b) \<and>
          (\<forall>k'. k' \<noteq> k \<longrightarrow> own_property (heap s' b) k' = own_property (heap s b) k') \<and>
          filter (\<lambda>k'. k' \<noteq> k) (own_keys (heap s' b))
            = filter (\<lambda>k'. k' \<noteq> k) (own_keys (heap s b)))"
  using assms by simp

lemma setMovieRating_frame:
  assumes "setMovieRating movie rating s = (r, s')"
  shows "next_addr s' = next_addr s \<and>
     (\<forall>b. (movie \<noteq> JRef b \<longrightarrow> heap s' b = heap s b) \<and>
          (\<forall>k. k \<noteq> ''rating'' \<longrightarrow> own_property (heap s' b) k = own_property (heap s b) k) \<and>
          filter (\<lambda>k. k \<noteq> ''rating'') (own_keys (heap s' b))
            = filter (\<lambda>k. k \<noteq> ''rating'') (own_keys (heap s b)))"
  using setMovieRating_cases [OF assms]
proof (elim disjE exE conjE)
  fix a assume "movie = JRef a"
    "s' = s\<lparr>heap := (heap s)(a := set_named ''rating'' rating (heap s a))\<rparr>"
  then show ?thesis using frame_set_named [of s' s a Rating rating] by simp
next
  assume "s' = console_error ''Invalid movie object or rating'' s"
  then show ?thesis by (intro frame_unchanged) simp_all
next
  assume "s' = s"
  then show ?thesis by (intro frame_unchanged) simp_all
qed

lemma addMovieGenre_frame:
  assumes "addMovieGenre movie genre s = (r, s')"
  shows "next_addr s' = next_addr s \<and>
     (\<forall>b. (movie \<noteq> JRef b \<longrightarrow> heap s' b = heap s b) \<and>
          (\<forall>k. k \<noteq> ''genre'' \<longrightarrow> own_property (heap s' b) k = own_property (heap s b) k) \<and>
          filter (\<lambda>k. k \<noteq> ''genre'') (own_keys (heap s' b))
            = filter (\<lambda>k. k \<noteq> ''genre'') (own_keys (heap s b)))"
  using addMovieGenre_cases [OF assms]
proof (elim disjE exE conjE)
  fix a assume "movie = JRef a"
    "s' = s\<lparr>heap := (heap s)(a := set_named ''genre'' genre (heap s a))\<rparr>"
  then show ?thesis using frame_set_named [of s' s a Genre genre] by simp
next
  assume "s' = console_error ''Invalid movie object or genre'' s"
  then show ?thesis by (intro frame_unchanged) simp_all
next
  assume "s' = s"
  then show ?thesis by (intro frame_unchanged) simp_all
qed

lemma removeDirectorProperty_frame:
  assumes "removeDirectorProperty movie s = (r, s')"
  shows "next_addr s' = next_addr s \<and>
     (\<forall>b. (movie \<noteq> JRef b \<longrightarrow> heap s' b = heap s b) \<and>
          (\<forall>k. k \<noteq> ''director'' \<longrightarrow> own_property (heap s' b) k = own_property (heap s b) k) \<and>
          filter (\<lambda>k. k \<noteq> ''director'') (own_keys (heap s' b))
            = filter (\<lambda>k. k \<noteq> ''director'') (own_keys (heap s b)))"
  using removeDirectorProperty_cases [OF assms]
proof (elim disjE exE conjE)
  fix a assume "movie = JRef a"
    "s' = s\<lparr>heap := (heap s)(a := delete_named ''director'' (heap s a))\<rparr>"
  then show ?thesis using frame_delete_named [of s' s a "''director''"] by simp
next
  assume "s' = console_error ''Invalid movie object or director property does not exist'' s"
  then show ?thesis by (intro frame_unchanged) simp_all
next
  assume "s' = s"
  then show ?thesis by (intro frame_unchanged) simp_all
qed

lemma addCastMember_frame:
  assumes "addCastMember movie x s = (r, s')"
  shows "next_addr s' = next_addr s \<and>
     (\<forall>b. heap s' b = heap s b \<or>
          (get_prop s movie ''cast'' = Return (JRef b) \<and>
           (\<exists>xs ps. heap s b = Arr xs ps \<and> heap s' b = Arr (xs @ [x]) ps)))"
  using addCastMember_cases [OF assms]
proof (elim disjE exE conjE)
  fix c xs ps
  assume "get_prop s movie ''cast'' = Return (JRef c)" "heap s c = Arr xs ps"
    "s' = s\<lparr>heap := (heap s)(c := Arr (xs @ [x]) ps)\<rparr>"
  then show ?thesis by (auto split: if_splits)
next
  assume "s' = console_error ''Invalid movie object, cast array, or new member'' s"
  then show ?thesis by simp
qed

subsection \<open>Allocation\<close>

lemma getAllowedGenres_loaded:
  "module_loaded s \<Longrightarrow>
   getAllowedGenres s =
     (Return (JRef (next_addr s)),
      s\<lparr>heap := (heap s)(next_addr s := Arr allowedGenres_literal []),
        next_addr := Suc (next_addr s)\<rparr>)"
  by (simp add: getAllowedGenres_def module_loaded_def alloc_def)

subsection \<open>Keys and counts\<close>

lemma getMovieKeys_ref:
  "getMovieKeys (JRef a) s =
     (Return (JRef (next_addr s)),
      s\<lparr>heap := (heap s)(next_addr s := Arr (map JStr (own_keys (heap s a))) []),
        next_addr := Suc (next_addr s)\<rparr>)"
  by (simp add: getMovieKeys_def isObject_def Object_keys_def alloc_def)

lemma getMovieKeys_invalid:
  "\<not> isObject movie \<Longrightarrow>
   getMovieKeys movie s =
     (Return (JRef (next_addr s)),
      (console_log ''getMovieKeys: Provided input is not a valid object.'' s)
        \<lparr>heap := (heap s)(next_addr s := Arr [] []), next_addr := Suc (next_addr s)\<rparr>)"
  by (simp add: getMovieKeys_def alloc_def)

lemma array_index_length [simp]: "array_index n ''length'' = None"
  by (rule array_index_named) simp

lemma getMoviePropertiesCount_ref:
  "fst (getMoviePropertiesCount (JRef a) s) = Return (num (of_nat (length (own_keys (heap s a)))))"
  "heap (snd (getMoviePropertiesCount (JRef a) s)) b
     = (if b = next_addr s then Arr (map JStr (own_keys (heap s a))) [] else heap s b)"
  "console (snd (getMoviePropertiesCount (JRef a) s)) = console s"
  by (simp_all add: getMoviePropertiesCount_def isObject_def getMovieKeys_ref get_prop_def
        seq_property_def)

lemma getMoviePropertiesCount_invalid:
  "\<not> isObject movie \<Longrightarrow>
   getMoviePropertiesCount movie s =
     (Return (num 0),
      console_log ''getMoviePropertiesCount: Provided input is not a valid object.'' s)"
  by (simp add: getMoviePropertiesCount_def)

lemma own_property_index:
  "i < length xs \<Longrightarrow> own_property (Arr xs ps) (index_key i) = Some (xs ! i)"
  by (simp add: seq_property_def array_index_key)

subsection \<open>Which calls throw\<close>

lemma truthy_primitive_iff:
  "truthy movie \<and> (\<forall>a. movie \<noteq> JRef a) \<longleftrightarrow>
   movie = JBool True \<or> (\<exists>n. movie = JNum n \<and> \<not> num_eq n (Fin 0) \<and> n \<noteq> NaN) \<or>
   (\<exists>str. movie = JStr str \<and> str \<noteq> [])"
  by (cases movie) auto

lemma setMovieRating_throws_iff:
  "fst (setMovieRating movie rating s) = Throw e \<longleftrightarrow>
   e = TypeError \<and> truthy movie \<and> (\<forall>a. movie \<noteq> JRef a) \<and>
   typeof rating = ''number'' \<and> js_ge rating (num 0) \<and> js_le rating (num 10)"
  by (cases movie) (auto simp: setMovieRating_def put_prop_def simp del: js_ge.simps)

lemma addMovieGenre_throws_iff:
  "heap s allowedGenres = Arr xs ps \<Longrightarrow>
   fst (addMovieGenre movie genre s) = Throw e \<longleftrightarrow>
   e = TypeError \<and> truthy movie \<and> (\<forall>a. movie \<noteq> JRef a) \<and> typeof genre = ''string'' \<and>
   array_includes xs genre"
  by (cases movie) (auto simp: addMovieGenre_def includes_method_def put_prop_def)

lemma removeDirectorProperty_throws_iff:
  "fst (removeDirectorProperty movie s) = Throw e \<longleftrightarrow>
   e = TypeError \<and> (\<exists>a. movie = JRef a \<and> own_property (heap s a) ''hasOwnProperty'' \<noteq> None)"
proof (cases "\<exists>a. movie = JRef a")
  case True
  then show ?thesis by (cases e) (auto simp: removeDirectorProperty_ref split: if_splits)
next
  case False
  then show ?thesis by (simp add: removeDirectorProperty_primitive)
qed

lemma addCastMember_returns: "fst (addCastMember movie x s) = Return movie"
proof -
  obtain r s' where e: "addCastMember movie x s = (r, s')" by (cases "addCastMember movie x s")
  from addCastMember_cases [OF e] have "r = Return movie" by auto
  with e show ?thesis by simp
qed

lemma mutators_return_argument:
  "fst (setMovieRating movie rating s) = Return v \<Longrightarrow> v = movie"
  "fst (addMovieGenre movie genre s) = Return v \<Longrightarrow> v = movie"
  "fst (removeDirectorProperty movie s) = Return v \<Longrightarrow> v = movie"
  "fst (addCastMember movie x s) = Return v \<Longrightarrow> v = movie"
proof -
  obtain r1 s1 where e1: "setMovieRating movie rating s = (r1, s1)"
    by (cases "setMovieRating movie rating s")
  from setMovieRating_cases [OF e1] e1
  show "fst (setMovieRating movie rating s) = Return v \<Longrightarrow> v = movie" by auto
  obtain r2 s2 where e2: "addMovieGenre movie genre s = (r2, s2)"
    by (cases "addMovieGenre movie genre s")
  from addMovieGenre_cases [OF e2] e2
  show "fst (addMovieGenre movie genre s) = Return v \<Longrightarrow> v = movie" by auto
  obtain r3 s3 where e3: "removeDirectorProperty movie s = (r3, s3)"
    by (cases "removeDirectorProperty movie s")
  from removeDirectorProperty_cases [OF e3] e3
  show "fst (removeDirectorProperty movie s) = Return v \<Longrightarrow> v = movie" by auto
  show "fst (addCastMember movie x s) = Return v \<Longrightarrow> v = movie"
    by (simp add: addCastMember_returns)
qed

text \<open>The accessors return a value of their declared type for every argument.\<close>

lemma getMovieTitle_eq:
  "getMovieTitle movie s =
     (case movie of
        JRef a \<Rightarrow>
          (case own_property (heap s a) ''title'' of
             Some (JStr t) \<Rightarrow> (Return (JStr t), s)
           | _ \<Rightarrow> (Return (JStr ''''),
                   console_log ''getMovieTitle: Invalid movie object or title missing.'' s))
      | _ \<Rightarrow> (Return (JStr ''''),
              console_log ''getMovieTitle: Invalid movie object or title missing.'' s))"
  by (cases movie)
     (auto simp: getMovieTitle_def hasPropertyOfType_eq isObject_def get_prop_def
           split: option.splits val.splits)

lemma accessors_return:
  "\<exists>b. fst (hasPropertyOfType ob prop t s) = Return (JBool b)"
  "\<exists>str. fst (getMovieTitle movie s) = Return (JStr str)"
  "\<exists>n. fst (getMovieYear movie s) = Return (JNum n)"
  "\<exists>b. fst (isMovieClassic movie s) = Return (JBool b)"
  "\<exists>p. fst (getMovieKeys movie s) = Return (JRef p) \<and> isArray (snd (getMovieKeys movie s)) (JRef p)"
  "\<exists>n. fst (getMoviePropertiesCount movie s) = Return (JNum n)"
proof -
  show "\<exists>b. fst (hasPropertyOfType ob prop t s) = Return (JBool b)"
    by (simp add: hasPropertyOfType_eq)
  show "\<exists>str. fst (getMovieTitle movie s) = Return (JStr str)"
    by (auto simp: getMovieTitle_eq split: val.splits option.splits)
  obtain n s1 where y: "getMovieYear movie s = (Return (JNum n), s1)"
    using getMovieYear_number by blast
  then show "\<exists>n. fst (getMovieYear movie s) = Return (JNum n)" by simp
  show "\<exists>b. fst (isMovieClassic movie s) = Return (JBool b)"
    by (cases "num_eq n (Fin 0)") (auto simp: isMovieClassic_eq [OF y])
  show "\<exists>p. fst (getMovieKeys movie s) = Return (JRef p) \<and>
      isArray (snd (getMovieKeys movie s)) (JRef p)"
    by (cases "isObject movie")
       (auto simp: isObject_iff getMovieKeys_ref getMovieKeys_invalid isArray_def)
  show "\<exists>n. fst (getMoviePropertiesCount movie s) = Return (JNum n)"
    by (cases "isObject movie")
       (auto simp: isObject_iff getMoviePropertiesCount_ref getMoviePropertiesCount_invalid)
qed

lemma removeDirectorProperty_idempotent:
  assumes "own_property (heap s a) ''hasOwnProperty'' = None"
  shows "fst (removeDirectorProperty (JRef a) s) = Return (JRef a) \<and>
     own_property (heap (snd (removeDirectorProperty (JRef a) s)) a) ''director'' = None \<and>
     (own_property (heap s a) ''director'' = None \<longrightarrow>
        heap (snd (removeDirectorProperty (JRef a) s)) = heap s) \<and>
     fst (removeDirectorProperty (JRef a) (snd (removeDirectorProperty (JRef a) s)))
       = Return (JRef a) \<and>
     heap (snd (removeDirectorProperty (JRef a) (snd (removeDirectorProperty (JRef a) s))))
       = heap (snd (removeDirectorProperty (JRef a) s))"
proof -
  define s1 where "s1 = snd (removeDirectorProperty (JRef a) s)"
  have r1: "fst (removeDirectorProperty (JRef a) s) = Return (JRef a)"
    using assms by (simp add: removeDirectorProperty_ref)
  have d1: "own_property (heap s1 a) ''director'' = None"
    using assms by (auto simp: s1_def removeDirectorProperty_ref own_property_delete_named)
  have h1: "own_property (heap s1 a) ''hasOwnProperty'' = None"
    using assms by (auto simp: s1_def removeDirectorProperty_ref own_property_delete_named)
  have n1: "own_property (heap s a) ''director'' = None \<longrightarrow> heap s1 = heap s"
    using assms by (simp add: s1_def removeDirectorProperty_ref)
  have r2: "fst (removeDirectorProperty (JRef a) s1) = Return (JRef a)"
    and h2: "heap (snd (removeDirectorProperty (JRef a) s1)) = heap s1"
    using d1 h1 by (simp_all add: removeDirectorProperty_ref)
  from r1 d1 n1 r2 h2 show ?thesis unfolding s1_def by simp
qed

text \<open>
  The module's own array stays as loaded under every exported function, as long as the
  caller passes no reference to it (and it has none to pass).
\<close>

lemma module_loaded_console [simp]:
  "module_loaded (console_log m s) = module_loaded s"
  "module_loaded (console_error m s) = module_loaded s"
  by (simp_all add: module_loaded_def)

lemma module_loaded_preserved:
  assumes "module_loaded s" and "movie \<noteq> JRef allowedGenres"
  shows "module_loaded (snd (setMovieRating movie rating s))"
    and "module_loaded (snd (addMovieGenre movie genre s))"
    and "module_loaded (snd (removeDirectorProperty movie s))"
    and "get_prop s movie ''cast'' \<noteq> Return (JRef allowedGenres) \<Longrightarrow>
         module_loaded (snd (addCastMember movie x s))"
    and "module_loaded (snd (getAllowedGenres s))"
    and "module_loaded (snd (getMovieKeys movie s))"
    and "module_loaded (snd (getMoviePropertiesCount movie s))"
proof -
  obtain r1 s1 where e1: "setMovieRating movie rating s = (r1, s1)"
    by (cases "setMovieRating movie rating s")
  from setMovieRating_cases [OF e1] assms
  show "module_loaded (snd (setMovieRating movie rating s))"
    unfolding e1 by (auto simp: module_loaded_def)
  obtain r2 s2 where e2: "addMovieGenre movie genre s = (r2, s2)"
    by (cases "addMovieGenre movie genre s")
  from addMovieGenre_cases [OF e2] assms
  show "module_loaded (snd (addMovieGenre movie genre s))"
    unfolding e2 by (auto simp: module_loaded_def)
  obtain r3 s3 where e3: "removeDirectorProperty movie s = (r3, s3)"
    by (cases "removeDirectorProperty movie s")
  from removeDirectorProperty_cases [OF e3] assms
  show "module_loaded (snd (removeDirectorProperty movie s))"
    unfolding e3 by (auto simp: module_loaded_def)
  obtain r4 s4 where e4: "addCastMember movie x s = (r4, s4)"
    by (cases "addCastMember movie x s")
  from addCastMember_cases [OF e4] assms
  show "module_loaded (snd (addCastMember movie x s))"
    if "get_prop s movie ''cast'' \<noteq> Return (JRef allowedGenres)"
    using that unfolding e4 by (auto simp: module_loaded_def)
  from assms have fresh: "next_addr s \<noteq> allowedGenres"
    by (auto simp: module_loaded_def)
  from assms(1) fresh show "module_loaded (snd (getAllowedGenres s))"
    by (simp add: getAllowedGenres_loaded module_loaded_def)
  from assms(1) fresh show "module_loaded (snd (getMovieKeys movie s))"
    by (cases "isObject movie")
       (auto simp: isObject_iff getMovieKeys_ref getMovieKeys_invalid module_loaded_def)
  from assms(1) fresh show "module_loaded (snd (getMoviePropertiesCount movie s))"
    by (cases "isObject movie")
       (auto simp: isObject_iff getMoviePropertiesCount_ref getMoviePropertiesCount_invalid
          module_loaded_def getMoviePropertiesCount_def getMovieKeys_ref)
qed

section \<open>The claims\<close>

subsection \<open>C1: no call throws\<close>

text \<open>
  Claim C1 says that for every input, primitives such as non-empty strings and numbers
  included, every function of both modules returns a value of its declared type and
  raises no exception: invalid input is only logged, and a mutator returns its first
  argument.

  The code does not keep this for a mutator that is given a truthy primitive
  (\<open>truthy_primitive_iff\<close>: \<^verbatim>\<open>true\<close>, a number other than 0 and NaN, a non-empty
  string). The guard
  \<^verbatim>\<open>movie && ...\<close> tests truthiness, not being an object, so \<^verbatim>\<open>setMovieRating("abc", 5)\<close>
  reaches the assignment \<^verbatim>\<open>movie.rating = rating\<close>, which throws a \<^verbatim>\<open>TypeError\<close> in strict
  code; nothing is logged and nothing is returned. \<^verbatim>\<open>addMovieGenre\<close> has the same guard,
  and \<^verbatim>\<open>addMovieGenre(7, "Drama")\<close> throws in the same way. These are the only arguments
  on which the two throw (\<open>setMovieRating_throws_iff\<close>, \<open>addMovieGenre_throws_iff\<close>). The
  sibling module tests \<^verbatim>\<open>typeof value === 'object'\<close> in \<^verbatim>\<open>isObject\<close>, and its functions
  return a value of their declared type for every argument (\<open>accessors_return\<close>).

  Of the two other mutators, \<^verbatim>\<open>removeDirectorProperty\<close> throws on an object with an own
  property named \<^verbatim>\<open>hasOwnProperty\<close> and on nothing else
  (\<open>removeDirectorProperty_throws_iff\<close>), and \<^verbatim>\<open>addCastMember\<close> always returns its first
  argument (\<open>addCastMember_returns\<close>). A mutator that returns, returns its first argument
  (\<open>mutators_return_argument\<close>).
\<close>

theorem mutators_throw_on_truthy_primitive:
  "setMovieRating (JStr ''abc'') (num 5) s = (Throw TypeError, s) \<and>
   addMovieGenre (num 7) (JStr ''Drama'') initial_state = (Throw TypeError, initial_state)"
  by (simp add: setMovieRating_def addMovieGenre_def includes_method_def put_prop_def
        array_includes_def allowedGenres_literal_def)

subsection \<open>C2: \<^verbatim>\<open>setMovieRating\<close>\<close>

text \<open>
  Claim C2. Let \<open>m\<close> be an object (a reference \<open>JRef a\<close>; every non-null structured value
  is one). If \<open>rating\<close> is a number with \<open>0 \<le> rating \<le> 10\<close> (a finite \<open>q\<close> in that range,
  or negative zero), \<^verbatim>\<open>setMovieRating(m, rating)\<close> returns \<open>m\<close> itself, the own property
  \<^verbatim>\<open>rating\<close> of \<open>m\<close> is then exactly \<open>rating\<close>, and nothing is logged. For every other
  \<open>rating\<close> (not a number, NaN, or outside the range) it returns \<open>m\<close> and the whole heap,
  so \<open>m\<close> with all its properties, is unchanged.
\<close>

theorem setMovieRating_spec:
  "((rating = num q \<and> 0 \<le> q \<and> q \<le> 10) \<or> rating = JNum NegZero \<longrightarrow>
      fst (setMovieRating (JRef a) rating s) = Return (JRef a) \<and>
      own_property (heap (snd (setMovieRating (JRef a) rating s)) a) ''rating'' = Some rating \<and>
      console (snd (setMovieRating (JRef a) rating s)) = console s) \<and>
   (\<not> ((\<exists>q. rating = num q \<and> 0 \<le> q \<and> q \<le> 10) \<or> rating = JNum NegZero) \<longrightarrow>
      fst (setMovieRating (JRef a) rating s) = Return (JRef a) \<and>
      heap (snd (setMovieRating (JRef a) rating s)) = heap s)"
proof -
  have "(rating = num q \<and> 0 \<le> q \<and> q \<le> 10) \<or> rating = JNum NegZero \<Longrightarrow>
      typeof rating = ''number'' \<and> js_ge rating (num 0) \<and> js_le rating (num 10)"
    unfolding js_range_iff by blast
  moreover have "\<not> ((\<exists>q. rating = num q \<and> 0 \<le> q \<and> q \<le> 10) \<or> rating = JNum NegZero) \<Longrightarrow>
      \<not> (typeof rating = ''number'' \<and> js_ge rating (num 0) \<and> js_le rating (num 10))"
    unfolding js_range_iff by blast
  ultimately show ?thesis
    by (auto simp: setMovieRating_ref set_named_rating simp del: js_ge.simps)
qed

theorem setMovieRating_spec_witness:
  "fst (setMovieRating (JRef 1) (num (91 / 10)) (with_objects toy_story toy_story_cast))
     = Return (JRef 1) \<and>
   own_property
     (heap (snd (setMovieRating (JRef 1) (num (91 / 10)) (with_objects toy_story toy_story_cast))) 1)
     ''rating'' = Some (num (91 / 10)) \<and>
   heap (snd (setMovieRating (JRef 1) (num 11) (with_objects toy_story toy_story_cast)))
     = heap (with_objects toy_story toy_story_cast) \<and>
   heap (snd (setMovieRating (JRef 1) (JStr ''9'') (with_objects toy_story toy_story_cast)))
     = heap (with_objects toy_story toy_story_cast)"
  using setMovieRating_spec [of "num (91 / 10)" "91 / 10" 1 "with_objects toy_story toy_story_cast"]
    setMovieRating_spec [of "num 11" 11 1 "with_objects toy_story toy_story_cast"]
    setMovieRating_spec [of "JStr ''9''" 9 1 "with_objects toy_story toy_story_cast"]
  by simp

subsection \<open>C3: \<^verbatim>\<open>addMovieGenre\<close>\<close>

text \<open>
  Claim C3. In a state where the module is loaded, let \<open>m\<close> be an object. If \<open>genre\<close> is
  one of the strings Animation, Family, Action, Comedy, Drama, Sci-Fi (compared exactly),
  \<^verbatim>\<open>addMovieGenre(m, genre)\<close> returns \<open>m\<close> and the own property \<^verbatim>\<open>genre\<close> of \<open>m\<close> is
  then \<open>genre\<close>: a single value, which replaces an earlier one in place (the property
  names of \<open>m\<close> stay as they were when \<^verbatim>\<open>genre\<close> existed, and gain \<^verbatim>\<open>genre\<close> at the end
  otherwise). For any other argument it returns \<open>m\<close> and the heap is unchanged. The witness
  sets Family over Animation, and rejects the lower-case \<^verbatim>\<open>family\<close> and the number 123.
\<close>

theorem addMovieGenre_spec:
  assumes "module_loaded s"
  shows
  "(genre \<in> JStr ` {''Animation'', ''Family'', ''Action'', ''Comedy'', ''Drama'', ''Sci-Fi''} \<longrightarrow>
      fst (addMovieGenre (JRef a) genre s) = Return (JRef a) \<and>
      own_property (heap (snd (addMovieGenre (JRef a) genre s)) a) ''genre'' = Some genre \<and>
      own_keys (heap (snd (addMovieGenre (JRef a) genre s)) a) =
        (if ''genre'' \<in> set (own_keys (heap s a)) then own_keys (heap s a)
         else own_keys (heap s a) @ [''genre''])) \<and>
   (genre \<notin> JStr ` {''Animation'', ''Family'', ''Action'', ''Comedy'', ''Drama'', ''Sci-Fi''} \<longrightarrow>
      fst (addMovieGenre (JRef a) genre s) = Return (JRef a) \<and>
      heap (snd (addMovieGenre (JRef a) genre s)) = heap s)"
proof -
  from assms have h: "heap s allowedGenres = Arr allowedGenres_literal []"
    by (simp add: module_loaded_def)
  show ?thesis
    unfolding includes_allowedGenres [symmetric]
    by (simp add: addMovieGenre_ref [OF h] set_named_genre)
qed

theorem addMovieGenre_spec_witness:
  "module_loaded (with_objects toy_story toy_story_cast) \<and>
   own_property (heap (with_objects toy_story toy_story_cast) 1) ''genre''
     = Some (JStr ''Animation'') \<and>
   own_property
     (heap (snd (addMovieGenre (JRef 1) (JStr ''Family'') (with_objects toy_story toy_story_cast))) 1)
     ''genre'' = Some (JStr ''Family'') \<and>
   own_keys
     (heap (snd (addMovieGenre (JRef 1) (JStr ''Family'') (with_objects toy_story toy_story_cast))) 1)
     = own_keys toy_story \<and>
   heap (snd (addMovieGenre (JRef 1) (JStr ''family'') (with_objects toy_story toy_story_cast)))
     = heap (with_objects toy_story toy_story_cast) \<and>
   heap (snd (addMovieGenre (JRef 1) (num 123) (with_object (Obj []))))
     = heap (with_object (Obj []))"
  using addMovieGenre_spec [of "with_objects toy_story toy_story_cast" "JStr ''Family''" 1]
    addMovieGenre_spec [of "with_objects toy_story toy_story_cast" "JStr ''family''" 1]
    addMovieGenre_spec [of "with_object (Obj [])" "num 123" 1]
  by (simp add: toy_story_def)

subsection \<open>C4: \<^verbatim>\<open>removeDirectorProperty\<close>\<close>

text \<open>
  Claim C4 says that \<^verbatim>\<open>removeDirectorProperty\<close> is idempotent on every non-null structured
  record: it deletes an own \<^verbatim>\<open>director\<close>, does nothing when there is none, and raises no
  exception.

  The code does not keep this for a record with an own property named
  \<^verbatim>\<open>hasOwnProperty\<close>. The guard calls \<^verbatim>\<open>movie.hasOwnProperty('director')\<close>, which finds
  the record's own property instead of the inherited method; for
  \<^verbatim>\<open>{hasOwnProperty: 1, director: "X"}\<close> the call of the number 1 throws a
  \<^verbatim>\<open>TypeError\<close>, and \<^verbatim>\<open>director\<close> is still there. The sibling module calls
  \<^verbatim>\<open>Object.prototype.hasOwnProperty.call(obj, prop)\<close>, which such a property cannot
  shadow. On every object without such a property the claim holds
  (\<open>removeDirectorProperty_idempotent\<close>).
\<close>

theorem removeDirectorProperty_shadowed_throws:
  "removeDirectorProperty (JRef 1)
     (with_object (Obj [(''hasOwnProperty'', num 1), (''director'', JStr ''X'')]))
   = (Throw TypeError, with_object (Obj [(''hasOwnProperty'', num 1), (''director'', JStr ''X'')]))"
  by (simp add: removeDirectorProperty_ref)

subsection \<open>C5: \<^verbatim>\<open>addCastMember\<close>\<close>

text \<open>
  Claim C5. If \<open>m\<close> is an object whose own property \<^verbatim>\<open>cast\<close> refers to an array with the
  elements \<open>xs\<close>, and \<open>x\<close> is a string, \<^verbatim>\<open>addCastMember(m, x)\<close> returns \<open>m\<close>, and the
  array then has the elements \<open>xs @ [x]\<close>: one more, \<open>x\<close> last, the earlier ones as they
  were and in their order; \<^verbatim>\<open>m.cast\<close> is still that array. For every other pair of
  arguments (\<open>m\<close> not an object, no \<^verbatim>\<open>cast\<close>, a \<^verbatim>\<open>cast\<close> that is no array, \<open>x\<close> not a
  string) it returns its first argument and the heap is unchanged, so no \<^verbatim>\<open>cast\<close> is
  created and no array changes its length.
\<close>

theorem addCastMember_spec:
  "(own_property (heap s a) ''cast'' = Some (JRef c) \<and> heap s c = Arr xs ps \<longrightarrow>
      fst (addCastMember (JRef a) (JStr str) s) = Return (JRef a) \<and>
      heap (snd (addCastMember (JRef a) (JStr str) s)) c = Arr (xs @ [JStr str]) ps \<and>
      own_property (heap (snd (addCastMember (JRef a) (JStr str) s)) a) ''cast''
        = Some (JRef c)) \<and>
   (\<not> (\<exists>a c xs ps str. movie = JRef a \<and> own_property (heap s a) ''cast'' = Some (JRef c) \<and>
          heap s c = Arr xs ps \<and> x = JStr str) \<longrightarrow>
      fst (addCastMember movie x s) = Return movie \<and>
      heap (snd (addCastMember movie x s)) = heap s)"
proof (intro conjI impI)
  assume v: "own_property (heap s a) ''cast'' = Some (JRef c) \<and> heap s c = Arr xs ps"
  then have e: "addCastMember (JRef a) (JStr str) s =
     (Return (JRef a), s\<lparr>heap := (heap s)(c := Arr (xs @ [JStr str]) ps)\<rparr>)"
    by (simp add: addCastMember_valid)
  show "fst (addCastMember (JRef a) (JStr str) s) = Return (JRef a)"
    by (simp add: e)
  show "heap (snd (addCastMember (JRef a) (JStr str) s)) c = Arr (xs @ [JStr str]) ps"
    by (simp add: e)
  show "own_property (heap (snd (addCastMember (JRef a) (JStr str) s)) a) ''cast'' = Some (JRef c)"
  proof (cases "a = c")
    case True
    with v have "named_property ps ''cast'' = Some (JRef c)"
      by (auto simp: seq_property_named)
    then show ?thesis unfolding e using True by (simp add: seq_property_named)
  next
    case False
    with v show ?thesis unfolding e by simp
  qed
next
  assume n: "\<not> (\<exists>a c xs ps str. movie = JRef a \<and>
      own_property (heap s a) ''cast'' = Some (JRef c) \<and> heap s c = Arr xs ps \<and> x = JStr str)"
  show "fst (addCastMember movie x s) = Return movie"
    by (simp add: addCastMember_invalid [OF n])
  show "heap (snd (addCastMember movie x s)) = heap s"
    by (simp add: addCastMember_invalid [OF n])
qed

theorem addCastMember_spec_witness:
  "own_property (heap (with_objects toy_story toy_story_cast) 1) ''cast'' = Some (JRef 2) \<and>
   heap (with_objects toy_story toy_story_cast) 2
     = Arr [JStr ''Tom Hanks'', JStr ''Tim Allen'', JStr ''Don Rickles''] [] \<and>
   heap (snd (addCastMember (JRef 1) (JStr ''Joan Cusack'') (with_objects toy_story toy_story_cast))) 2
     = Arr [JStr ''Tom Hanks'', JStr ''Tim Allen'', JStr ''Don Rickles'', JStr ''Joan Cusack''] [] \<and>
   heap (snd (addCastMember (JRef 1) (JStr ''Joan Cusack'') (with_object (Obj []))))
     = heap (with_object (Obj [])) \<and>
   heap (snd (addCastMember (JRef 1) (num 7) (with_objects toy_story toy_story_cast)))
     = heap (with_objects toy_story toy_story_cast)"
  using addCastMember_spec [of "with_objects toy_story toy_story_cast" 1 2
      "[JStr ''Tom Hanks'', JStr ''Tim Allen'', JStr ''Don Rickles'']" "[]" "''Joan Cusack''"]
    addCastMember_spec [of "with_object (Obj [])" 1 2 "[]" "[]" "''Joan Cusack''" "JRef 1"
      "JStr ''Joan Cusack''"]
    addCastMember_spec [of "with_objects toy_story toy_story_cast" 1 2 "[]" "[]" "''x''" "JRef 1"
      "num 7"]
  by (simp add: toy_story_def toy_story_cast_def)

subsection \<open>C6: \<^verbatim>\<open>getMovieYear\<close> and \<^verbatim>\<open>isMovieClassic\<close>\<close>

text \<open>
  Claim C6. For every value \<open>movie\<close>: \<^verbatim>\<open>getMovieYear\<close> returns the value of the own
  property \<^verbatim>\<open>year\<close> when \<open>movie\<close> is an object that has it with a value of type number,
  and the sentinel \<open>0\<close> otherwise (so also for \<^verbatim>\<open>null\<close> and for an object without
  \<^verbatim>\<open>year\<close>); neither function changes the heap. With \<open>y\<close> the value \<^verbatim>\<open>getMovieYear\<close>
  returns, \<^verbatim>\<open>isMovieClassic\<close> returns \<^verbatim>\<open>false\<close> when \<^verbatim>\<open>y === 0\<close> and otherwise
  \<^verbatim>\<open>y < 2000\<close>; for a finite year \<open>q\<close> that is \<open>q \<noteq> 0 \<and> q < 2000\<close>. The witness
  evaluates the scenario of the specification: the year 1995 is returned and is classic,
  the year 2020 is not classic, and \<^verbatim>\<open>{}\<close> and \<^verbatim>\<open>null\<close> give 0.
\<close>

theorem getMovieYear_isMovieClassic_spec:
  "heap (snd (getMovieYear movie s)) = heap s \<and>
   heap (snd (isMovieClassic movie s)) = heap s \<and>
   (movie = JRef a \<and> own_property (heap s a) ''year'' = Some (JNum n)
      \<longrightarrow> getMovieYear movie s = (Return (JNum n), s)) \<and>
   (\<not> (\<exists>a n. movie = JRef a \<and> own_property (heap s a) ''year'' = Some (JNum n))
      \<longrightarrow> fst (getMovieYear movie s) = Return (num 0)) \<and>
   (fst (getMovieYear movie s) = Return y \<longrightarrow>
      fst (isMovieClassic movie s) =
        Return (JBool (\<not> strict_eq y (num 0) \<and> js_lt y (num 2000)))) \<and>
   (fst (getMovieYear movie s) = Return (num q) \<longrightarrow>
      fst (isMovieClassic movie s) = Return (JBool (q \<noteq> 0 \<and> q < 2000)))"
proof -
  obtain k s1 where y: "getMovieYear movie s = (Return (JNum k), s1)" and h1: "heap s1 = heap s"
    using getMovieYear_number by blast
  have 1: "heap (snd (getMovieYear movie s)) = heap s"
    by (simp add: y h1)
  have 2: "heap (snd (isMovieClassic movie s)) = heap s"
    by (simp add: isMovieClassic_eq [OF y] h1)
  have 3: "movie = JRef a \<and> own_property (heap s a) ''year'' = Some (JNum n)
      \<longrightarrow> getMovieYear movie s = (Return (JNum n), s)"
    by (simp add: getMovieYear_eq)
  have 4: "\<not> (\<exists>a n. movie = JRef a \<and> own_property (heap s a) ''year'' = Some (JNum n))
      \<longrightarrow> fst (getMovieYear movie s) = Return (num 0)"
    by (cases movie) (auto simp: getMovieYear_eq split: option.splits val.splits)
  have 5: "fst (getMovieYear movie s) = Return y \<longrightarrow>
      fst (isMovieClassic movie s) =
        Return (JBool (\<not> strict_eq y (num 0) \<and> js_lt y (num 2000)))" for y
    by (auto simp: isMovieClassic_eq [OF y] y)
  have 6: "fst (getMovieYear movie s) = Return (num q) \<longrightarrow>
      fst (isMovieClassic movie s) = Return (JBool (q \<noteq> 0 \<and> q < 2000))"
    using 5 [of "num q"] by simp
  from 1 2 3 4 5 6 show ?thesis by blast
qed

theorem getMovieYear_isMovieClassic_spec_witness:
  "fst (getMovieYear (JRef 1) (with_object (Obj [(''year'', num 1995)]))) = Return (num 1995) \<and>
   fst (isMovieClassic (JRef 1) (with_object (Obj [(''year'', num 1995)]))) = Return (JBool True) \<and>
   fst (isMovieClassic (JRef 1) (with_object (Obj [(''year'', num 2020)]))) = Return (JBool False) \<and>
   fst (getMovieYear (JRef 1) (with_object (Obj []))) = Return (num 0) \<and>
   fst (getMovieYear Null initial_state) = Return (num 0)"
proof -
  have a: "fst (getMovieYear (JRef 1) (with_object (Obj [(''year'', num 1995)]))) = Return (num 1995)"
    using getMovieYear_isMovieClassic_spec
      [of "JRef 1" "with_object (Obj [(''year'', num 1995)])" 1 "Fin 1995"]
    by simp
  have b: "fst (isMovieClassic (JRef 1) (with_object (Obj [(''year'', num 1995)]))) = Return (JBool True)"
    using a getMovieYear_isMovieClassic_spec
      [of "JRef 1" "with_object (Obj [(''year'', num 1995)])" 1 "Fin 1995" "num 1995" 1995]
    by simp
  have c: "fst (getMovieYear (JRef 1) (with_object (Obj [(''year'', num 2020)]))) = Return (num 2020)"
    using getMovieYear_isMovieClassic_spec
      [of "JRef 1" "with_object (Obj [(''year'', num 2020)])" 1 "Fin 2020"]
    by simp
  have d: "fst (isMovieClassic (JRef 1) (with_object (Obj [(''year'', num 2020)]))) = Return (JBool False)"
    using c getMovieYear_isMovieClassic_spec
      [of "JRef 1" "with_object (Obj [(''year'', num 2020)])" 1 "Fin 2020" "num 2020" 2020]
    by simp
  have e: "fst (getMovieYear (JRef 1) (with_object (Obj []))) = Return (num 0)"
    using getMovieYear_isMovieClassic_spec [of "JRef 1" "with_object (Obj [])" 1 "Fin 0" "num 0" 0]
    by simp
  have f: "fst (getMovieYear Null initial_state) = Return (num 0)"
    using getMovieYear_isMovieClassic_spec [of Null initial_state 1 "Fin 0" "num 0" 0]
    by simp
  from a b d e f show ?thesis by simp
qed

subsection \<open>C7: \<^verbatim>\<open>getAllowedGenres\<close>\<close>

text \<open>
  Claim C7. In a state where the module is loaded, \<^verbatim>\<open>getAllowedGenres()\<close> returns a
  reference to a new array: its address was unused before the call and is not the address
  of the module's own array. The new array holds Animation, Family, Action, Comedy, Drama,
  Sci-Fi in this order; every other object and the console are as before. Whatever object
  \<open>ob\<close> a caller then puts in the place of the returned array (any mutation of it), the
  module is still loaded, that is, its own array still is the literal, and the next call
  returns another new array with the same six elements.

  The caller can only mutate objects it has a reference to. The module never hands out the
  address of its own array: the mutators return their argument, and \<^verbatim>\<open>getAllowedGenres\<close> and
  \<^verbatim>\<open>getMovieKeys\<close> return new addresses. So the module stays loaded under every call of
  an exported function (\<open>module_loaded_preserved\<close>).
\<close>

theorem getAllowedGenres_spec:
  assumes "module_loaded s"
  shows "fst (getAllowedGenres s) = Return (JRef (next_addr s)) \<and>
     next_addr s \<noteq> allowedGenres \<and>
     heap (snd (getAllowedGenres s)) (next_addr s) = Arr allowedGenres_literal [] \<and>
     (\<forall>b. b \<noteq> next_addr s \<longrightarrow> heap (snd (getAllowedGenres s)) b = heap s b) \<and>
     next_addr (snd (getAllowedGenres s)) = Suc (next_addr s) \<and>
     console (snd (getAllowedGenres s)) = console s \<and>
     module_loaded
       ((snd (getAllowedGenres s))\<lparr>heap := (heap (snd (getAllowedGenres s)))(next_addr s := ob)\<rparr>) \<and>
     fst (getAllowedGenres
       ((snd (getAllowedGenres s))\<lparr>heap := (heap (snd (getAllowedGenres s)))(next_addr s := ob)\<rparr>))
       = Return (JRef (Suc (next_addr s))) \<and>
     heap (snd (getAllowedGenres
       ((snd (getAllowedGenres s))\<lparr>heap := (heap (snd (getAllowedGenres s)))(next_addr s := ob)\<rparr>)))
       (Suc (next_addr s)) = Arr allowedGenres_literal []"
proof -
  define p where "p = next_addr s"
  define s1 where "s1 = snd (getAllowedGenres s)"
  define s2 where "s2 = s1\<lparr>heap := (heap s1)(p := ob)\<rparr>"
  from assms have fresh: "p \<noteq> allowedGenres"
    by (auto simp: module_loaded_def p_def)
  have r: "fst (getAllowedGenres s) = Return (JRef p)"
    and h1: "heap s1 = (heap s)(p := Arr allowedGenres_literal [])"
    and n1: "next_addr s1 = Suc p"
    and c1: "console s1 = console s"
    by (simp_all add: getAllowedGenres_loaded [OF assms] s1_def p_def)
  have l2: "module_loaded s2"
    using assms fresh by (simp add: module_loaded_def s2_def h1 n1 p_def)
  have n2: "next_addr s2 = Suc p"
    by (simp add: s2_def n1)
  have r2: "fst (getAllowedGenres s2) = Return (JRef (Suc p))"
    and h2: "heap (snd (getAllowedGenres s2)) (Suc p) = Arr allowedGenres_literal []"
    by (simp_all add: getAllowedGenres_loaded [OF l2] n2)
  from r fresh h1 n1 c1 l2 r2 h2 show ?thesis
    unfolding s2_def s1_def p_def by simp
qed

theorem getAllowedGenres_spec_witness:
  "module_loaded initial_state \<and>
   fst (getAllowedGenres initial_state) = Return (JRef 1) \<and>
   heap (snd (getAllowedGenres initial_state)) 1 =
     Arr [JStr ''Animation'', JStr ''Family'', JStr ''Action'', JStr ''Comedy'', JStr ''Drama'',
          JStr ''Sci-Fi''] [] \<and>
   fst (getAllowedGenres
     ((snd (getAllowedGenres initial_state))
        \<lparr>heap := (heap (snd (getAllowedGenres initial_state)))(1 := Arr [JStr ''Horror''] [])\<rparr>))
     = Return (JRef 2) \<and>
   heap (snd (getAllowedGenres
     ((snd (getAllowedGenres initial_state))
        \<lparr>heap := (heap (snd (getAllowedGenres initial_state)))(1 := Arr [JStr ''Horror''] [])\<rparr>))) 2
     = Arr [JStr ''Animation'', JStr ''Family'', JStr ''Action'', JStr ''Comedy'', JStr ''Drama'',
          JStr ''Sci-Fi''] []"
proof -
  have n: "next_addr initial_state = 1"
    by (simp add: initial_state_def allowedGenres_def)
  show ?thesis
    using getAllowedGenres_spec [OF module_loaded_examples(1), of "Arr [JStr ''Horror''] []"]
    unfolding n by (simp add: allowedGenres_literal_def numeral_2_eq_2)
qed

subsection \<open>C8: \<^verbatim>\<open>hasPropertyOfType\<close>\<close>

text \<open>
  Claim C8. For every value \<open>ob\<close>, property name \<open>prop\<close> and type tag \<open>t\<close>,
  \<^verbatim>\<open>hasPropertyOfType(ob, prop, t)\<close> returns a boolean, and it returns \<^verbatim>\<open>true\<close> if and
  only if \<open>ob\<close> is not \<^verbatim>\<open>null\<close> and has the runtime type \<^verbatim>\<open>object\<close>, \<open>prop\<close> is an
  own property of \<open>ob\<close>, and the \<^verbatim>\<open>typeof\<close> of the property's value is \<open>t\<close>. The call
  returns the state it was given: the heap and the console are untouched, so there is no
  side effect and nothing is logged.
\<close>

theorem hasPropertyOfType_spec:
  "\<exists>b. hasPropertyOfType ob prop t s = (Return (JBool b), s) \<and>
       (b \<longleftrightarrow> ob \<noteq> Null \<and> typeof ob = ''object'' \<and>
              (\<exists>v. own_prop s ob prop = Some v \<and> t = JStr (typeof v)))"
  by (cases ob) (auto simp: hasPropertyOfType_eq isObject_def)

theorem hasPropertyOfType_spec_witness:
  "hasPropertyOfType (JRef 1) ''title'' (JStr ''string'') (with_object (Obj [(''title'', JStr ''X'')]))
     = (Return (JBool True), with_object (Obj [(''title'', JStr ''X'')]))
   \<and> hasPropertyOfType (JRef 1) ''title'' (JStr ''string'') (with_object (Obj [(''title'', num 5)]))
     = (Return (JBool False), with_object (Obj [(''title'', num 5)]))
   \<and> hasPropertyOfType Null ''title'' (JStr ''string'') initial_state
     = (Return (JBool False), initial_state)"
  using hasPropertyOfType_spec [of "JRef 1" "''title''" "JStr ''string''" "with_object (Obj [(''title'', JStr ''X'')])"]
    hasPropertyOfType_spec [of "JRef 1" "''title''" "JStr ''string''" "with_object (Obj [(''title'', num 5)])"]
    hasPropertyOfType_spec [of Null "''title''" "JStr ''string''" initial_state]
  by (auto simp: with_object_def initial_state_def allowedGenres_def)

subsection \<open>C9: what the mutators leave alone\<close>

text \<open>
  Claim C9. For all arguments and on every path (the property is written, the input is
  rejected and logged, or the call throws), each mutator changes at most its one target.
  \<^verbatim>\<open>setMovieRating\<close>, \<^verbatim>\<open>addMovieGenre\<close> and \<^verbatim>\<open>removeDirectorProperty\<close> leave every
  object other than \<open>movie\<close> as it was, and in every object every own property other than
  \<^verbatim>\<open>rating\<close>, \<^verbatim>\<open>genre\<close>, \<^verbatim>\<open>director\<close> respectively keeps its value, and the list of
  property names apart from that one is the same, in the same order. \<^verbatim>\<open>addCastMember\<close>
  leaves every object as it was except the array that \<^verbatim>\<open>movie.cast\<close> refers to, which
  only gains \<open>newMember\<close> at its end. No call allocates an object.
\<close>

theorem mutators_frame:
  "(next_addr (snd (setMovieRating movie rating s)) = next_addr s \<and>
    (\<forall>b. (movie \<noteq> JRef b \<longrightarrow> heap (snd (setMovieRating movie rating s)) b = heap s b) \<and>
         (\<forall>k. k \<noteq> ''rating'' \<longrightarrow>
              own_property (heap (snd (setMovieRating movie rating s)) b) k
                = own_property (heap s b) k) \<and>
         filter (\<lambda>k. k \<noteq> ''rating'') (own_keys (heap (snd (setMovieRating movie rating s)) b))
           = filter (\<lambda>k. k \<noteq> ''rating'') (own_keys (heap s b)))) \<and>
   (next_addr (snd (addMovieGenre movie genre s)) = next_addr s \<and>
    (\<forall>b. (movie \<noteq> JRef b \<longrightarrow> heap (snd (addMovieGenre movie genre s)) b = heap s b) \<and>
         (\<forall>k. k \<noteq> ''genre'' \<longrightarrow>
              own_property (heap (snd (addMovieGenre movie genre s)) b) k
                = own_property (heap s b) k) \<and>
         filter (\<lambda>k. k \<noteq> ''genre'') (own_keys (heap (snd (addMovieGenre movie genre s)) b))
           = filter (\<lambda>k. k \<noteq> ''genre'') (own_keys (heap s b)))) \<and>
   (next_addr (snd (removeDirectorProperty movie s)) = next_addr s \<and>
    (\<forall>b. (movie \<noteq> JRef b \<longrightarrow> heap (snd (removeDirectorProperty movie s)) b = heap s b) \<and>
         (\<forall>k. k \<noteq> ''director'' \<longrightarrow>
              own_property (heap (snd (removeDirectorProperty movie s)) b) k
                = own_property (heap s b) k) \<and>
         filter (\<lambda>k. k \<noteq> ''director'') (own_keys (heap (snd (removeDirectorProperty movie s)) b))
           = filter (\<lambda>k. k \<noteq> ''director'') (own_keys (heap s b)))) \<and>
   (next_addr (snd (addCastMember movie newMember s)) = next_addr s \<and>
    (\<forall>b. heap (snd (addCastMember movie newMember s)) b = heap s b \<or>
         (get_prop s movie ''cast'' = Return (JRef b) \<and>
          (\<exists>xs ps. heap s b = Arr xs ps \<and>
             heap (snd (addCastMember movie newMember s)) b = Arr (xs @ [newMember]) ps))))"
  using setMovieRating_frame [OF prod.collapse [symmetric], of movie rating s]
    addMovieGenre_frame [OF prod.collapse [symmetric], of movie genre s]
    removeDirectorProperty_frame [OF prod.collapse [symmetric], of movie s]
    addCastMember_frame [OF prod.collapse [symmetric], of movie newMember s]
  by (intro conjI) blast+

theorem mutators_frame_witness:
  "own_property
     (heap (snd (setMovieRating (JRef 1) (num 9) (with_objects toy_story toy_story_cast))) 1)
     ''title'' = Some (JStr ''Toy Story'') \<and>
   heap (snd (setMovieRating (JRef 1) (num 9) (with_objects toy_story toy_story_cast))) 2
     = toy_story_cast \<and>
   heap (snd (setMovieRating (JStr ''abc'') (num 9) (with_objects toy_story toy_story_cast))) 1
     = toy_story \<and>
   own_property
     (heap (snd (addMovieGenre (JRef 1) (JStr ''Drama'') (with_objects toy_story toy_story_cast))) 1)
     ''rating'' = Some (num (83 / 10)) \<and>
   filter (\<lambda>k. k \<noteq> ''director'')
     (own_keys (heap (snd (removeDirectorProperty (JRef 1)
        (with_objects toy_story toy_story_cast))) 1))
     = [''id'', ''title'', ''year'', ''genre'', ''rating'', ''cast''] \<and>
   heap (snd (addCastMember (JRef 1) (JStr ''Joan Cusack'')
      (with_objects toy_story toy_story_cast))) 1 = toy_story"
proof -
  let ?s = "with_objects toy_story toy_story_cast"
  note T = mutators_frame [of "JRef 1" "num 9" ?s "JStr ''Drama''" "JStr ''Joan Cusack''"]
  note U = mutators_frame [of "JStr ''abc''" "num 9" ?s "JStr ''Drama''" "JStr ''Joan Cusack''"]
  note rating = T [THEN conjunct1, THEN conjunct2]
  note genre = T [THEN conjunct2, THEN conjunct1, THEN conjunct2]
  note director = T [THEN conjunct2, THEN conjunct2, THEN conjunct1, THEN conjunct2]
  note cast = T [THEN conjunct2, THEN conjunct2, THEN conjunct2, THEN conjunct2]
  have a: "own_property (heap (snd (setMovieRating (JRef 1) (num 9) ?s)) 1) ''title''
      = Some (JStr ''Toy Story'')"
    using rating [THEN spec, of 1, THEN conjunct2, THEN conjunct1, THEN spec, of "''title''"]
    by (simp add: toy_story_def)
  have b: "heap (snd (setMovieRating (JRef 1) (num 9) ?s)) 2 = toy_story_cast"
    using rating [THEN spec, of 2, THEN conjunct1] by simp
  have c: "heap (snd (setMovieRating (JStr ''abc'') (num 9) ?s)) 1 = toy_story"
    using U [THEN conjunct1, THEN conjunct2, THEN spec, of 1, THEN conjunct1] by simp
  have d: "own_property (heap (snd (addMovieGenre (JRef 1) (JStr ''Drama'') ?s)) 1) ''rating''
      = Some (num (83 / 10))"
    using genre [THEN spec, of 1, THEN conjunct2, THEN conjunct1, THEN spec, of "''rating''"]
    by (simp add: toy_story_def)
  have e: "filter (\<lambda>k. k \<noteq> ''director'')
      (own_keys (heap (snd (removeDirectorProperty (JRef 1) ?s)) 1))
      = [''id'', ''title'', ''year'', ''genre'', ''rating'', ''cast'']"
    using director [THEN spec, of 1, THEN conjunct2, THEN conjunct2]
    by (simp add: toy_story_def)
  have f: "heap (snd (addCastMember (JRef 1) (JStr ''Joan Cusack'') ?s)) 1 = toy_story"
    using cast [THEN spec, of 1] by (simp add: get_prop_def toy_story_def)
  from a b c d e f show ?thesis by simp
qed

subsection \<open>C10: arrays in the accessor module\<close>

text \<open>
  Claim C10 says that \<^verbatim>\<open>isObject\<close> accepts arrays, and that for every array \<open>a\<close>
  \<^verbatim>\<open>getMovieKeys(a)\<close> returns the index names of \<open>a\<close>, \<^verbatim>\<open>getMoviePropertiesCount(a)\<close>
  returns the length of \<open>a\<close>, and \<^verbatim>\<open>hasPropertyOfType(a, i, tag)\<close> inspects the elements.

  As stated it fails for an array with an own property besides its elements. The empty
  array to which \<^verbatim>\<open>setMovieRating(a, 5)\<close> has given the property \<^verbatim>\<open>rating\<close> has the
  length 0, but \<^verbatim>\<open>getMovieKeys\<close> returns \<^verbatim>\<open>["rating"]\<close> and
  \<^verbatim>\<open>getMoviePropertiesCount\<close> returns 1: both go through \<^verbatim>\<open>Object.keys\<close>, which lists
  every own enumerable property.
\<close>

theorem accessors_on_arrays_counterexample:
  "get_prop (with_object (Arr [] [(Rating, num 5)])) (JRef 1) ''length'' = Return (num 0) \<and>
   fst (getMoviePropertiesCount (JRef 1) (with_object (Arr [] [(Rating, num 5)])))
     = Return (num 1) \<and>
   heap (snd (getMovieKeys (JRef 1) (with_object (Arr [] [(Rating, num 5)])))) 2
     = Arr [JStr ''rating''] [] \<and>
   heap (snd (setMovieRating (JRef 1) (num 5) (with_object (Arr [] [])))) 1
     = Arr [] [(Rating, num 5)]"
  by (simp add: getMoviePropertiesCount_ref getMovieKeys_ref get_prop_def seq_property_def
        setMovieRating_ref with_object_def array_prop_of_def)

text \<open>
  Claim C10, amended. For every array \<open>a\<close> with the elements \<open>xs\<close> and the other own
  properties \<open>ps\<close>: \<^verbatim>\<open>isObject\<close> accepts \<open>a\<close>; \<^verbatim>\<open>getMovieKeys(a)\<close> logs nothing and
  returns a new array of the index names of \<open>a\<close> as strings, followed by the names of its
  other own properties; \<^verbatim>\<open>getMoviePropertiesCount(a)\<close> logs nothing and returns the
  number of these names, which is the length of \<open>a\<close> when \<open>a\<close> has no own property besides
  its elements; and for an index \<open>i\<close> of \<open>a\<close>, \<^verbatim>\<open>hasPropertyOfType(a, i, t)\<close> returns
  whether \<open>t\<close> is the \<^verbatim>\<open>typeof\<close> of the element at \<open>i\<close>. The index is given by its name,
  the decimal numeral that JavaScript converts a numeric index to.
\<close>

theorem accessors_on_arrays:
  "heap s a = Arr xs ps \<longrightarrow>
     isObject (JRef a) \<and>
     fst (getMovieKeys (JRef a) s) = Return (JRef (next_addr s)) \<and>
     heap (snd (getMovieKeys (JRef a) s)) (next_addr s)
       = Arr (map JStr (map index_key [0..<length xs] @ map prop_name (map fst ps))) [] \<and>
     console (snd (getMovieKeys (JRef a) s)) = console s \<and>
     fst (getMoviePropertiesCount (JRef a) s) = Return (num (of_nat (length xs + length ps))) \<and>
     console (snd (getMoviePropertiesCount (JRef a) s)) = console s \<and>
     (ps = [] \<longrightarrow>
        fst (getMoviePropertiesCount (JRef a) s) = get_prop s (JRef a) ''length'') \<and>
     (i < length xs \<longrightarrow>
        hasPropertyOfType (JRef a) (index_key i) t s
          = (Return (JBool (t = JStr (typeof (xs ! i)))), s))"
proof (intro impI conjI)
  assume h: "heap s a = Arr xs ps"
  show "isObject (JRef a)" by (simp add: isObject_def)
  show "fst (getMovieKeys (JRef a) s) = Return (JRef (next_addr s))"
    by (simp add: getMovieKeys_ref)
  show "heap (snd (getMovieKeys (JRef a) s)) (next_addr s)
       = Arr (map JStr (map index_key [0..<length xs] @ map prop_name (map fst ps))) []"
    by (simp add: getMovieKeys_ref h)
  show "console (snd (getMovieKeys (JRef a) s)) = console s"
    by (simp add: getMovieKeys_ref)
  show "fst (getMoviePropertiesCount (JRef a) s) = Return (num (of_nat (length xs + length ps)))"
    by (simp add: getMoviePropertiesCount_ref h)
  show "console (snd (getMoviePropertiesCount (JRef a) s)) = console s"
    by (simp add: getMoviePropertiesCount_ref)
  show "fst (getMoviePropertiesCount (JRef a) s) = get_prop s (JRef a) ''length''" if "ps = []"
    using that by (simp add: getMoviePropertiesCount_ref h get_prop_def seq_property_def)
  show "hasPropertyOfType (JRef a) (index_key i) t s
          = (Return (JBool (t = JStr (typeof (xs ! i)))), s)" if "i < length xs"
  proof -
    from that have "own_prop s (JRef a) (index_key i) = Some (xs ! i)"
      using own_property_index [of i xs ps] by (simp add: h)
    then show ?thesis by (simp add: hasPropertyOfType_eq isObject_def)
  qed
qed

theorem accessors_on_arrays_witness:
  "fst (getMovieKeys (JRef 2) (with_objects toy_story toy_story_cast)) = Return (JRef 3) \<and>
   heap (snd (getMovieKeys (JRef 2) (with_objects toy_story toy_story_cast))) 3
     = Arr [JStr ''0'', JStr ''1'', JStr ''2''] [] \<and>
   fst (getMoviePropertiesCount (JRef 2) (with_objects toy_story toy_story_cast))
     = Return (num 3) \<and>
   fst (hasPropertyOfType (JRef 2) ''1'' (JStr ''string'') (with_objects toy_story toy_story_cast))
     = Return (JBool True)"
proof -
  let ?s = "with_objects toy_story toy_story_cast"
  have n: "next_addr ?s = 3" by (simp add: with_objects_def)
  have k: "index_key 0 = ''0''" "index_key (Suc 0) = ''1''" "index_key 1 = ''1''"
    "index_key (Suc (Suc 0)) = ''2''"
    by (simp_all add: index_key.simps digit_char_def)
  have h: "heap ?s 2 = Arr [JStr ''Tom Hanks'', JStr ''Tim Allen'', JStr ''Don Rickles''] []"
    by (simp add: toy_story_cast_def)
  show ?thesis
    using accessors_on_arrays [of ?s 2 "[JStr ''Tom Hanks'', JStr ''Tim Allen'', JStr ''Don Rickles'']"
        "[]" 1 "JStr ''string''"] h k
    unfolding n by simp
qed

end
